theory Spec2Isabelle
  imports Main "HOL-Library.AList"
begin

text \<open>
  A model of the session refresh scheduler, the admin permission resolver and the two
  account approval workflows of the repository. Every function is translated from its
  TypeScript source; what a function awaits from a collaborator (the identity provider,
  the document store, a callable, a helper whose source is not at hand) is an argument of
  the model, so that each theorem holds whatever the collaborator answers. Logging is left
  out: \<^verbatim>\<open>logOperation\<close> returns nothing and does not throw.
\<close>

section \<open>Thrown values\<close>

text \<open>
  The TypeScript sources throw and catch JavaScript values. The handlers distinguish
  \<^verbatim>\<open>error instanceof FirebaseError\<close> (which carries a \<^verbatim>\<open>code\<close> and a
  \<^verbatim>\<open>message\<close>), \<^verbatim>\<open>error instanceof Error\<close> (which carries a
  \<^verbatim>\<open>message\<close>) and anything else. A \<^verbatim>\<open>ReferenceError\<close> is what the
  runtime throws when an identifier that is neither declared nor imported is evaluated; it
  is an \<^verbatim>\<open>Error\<close>, and so is a \<^verbatim>\<open>FirebaseError\<close>.
\<close>

datatype exn =
    FirebaseError string string
  | Error string
  | ReferenceError string
  | Thrown

fun instanceofError :: "exn \<Rightarrow> bool" where
  "instanceofError Thrown = False"
| "instanceofError _ = True"

fun message :: "exn \<Rightarrow> string" where
  "message (FirebaseError c m) = m"
| "message (Error m) = m"
| "message (ReferenceError m) = m"
| "message Thrown = []"


section \<open>Token refresh scheduler (services/auth/session/refresh.ts)\<close>

definition SESSION_TIMEOUT :: int where
  "SESSION_TIMEOUT = 55 * 60 * 1000"

definition REFRESH_THRESHOLD :: int where
  "REFRESH_THRESHOLD = 5 * 60 * 1000"

text \<open>
  \<^verbatim>\<open>setupSessionRefresh\<close> is a closure over one variable, \<^verbatim>\<open>timeoutId\<close>, and
  an asynchronous function \<^verbatim>\<open>scheduleNextCheck\<close> that suspends at
  \<^verbatim>\<open>await user.getIdTokenResult()\<close>; the timer callback it arms suspends at
  \<^verbatim>\<open>await refreshSession(user)\<close>. The model is the state of that closure together
  with the part of the event loop it uses: the armed timers, the number of suspended
  invocations, and counters for what the caller can observe. The callbacks
  \<^verbatim>\<open>onRefresh\<close> and \<^verbatim>\<open>onError\<close> are the caller's and return normally.
\<close>

datatype callback = RefreshTimer | RetryTimer

record timer =
  timerId :: nat
  callback :: callback
  delay :: int

record scheduler =
  timers :: "timer list"
  nextTimerId :: nat
  timeoutId :: "nat option"
  awaitingToken :: nat
  awaitingRefresh :: nat
  refreshCalls :: nat
  onRefreshCalls :: nat
  onErrorCalls :: "exn list"
  unhandled :: "exn list"

definition setTimeout :: "callback \<Rightarrow> int \<Rightarrow> scheduler \<Rightarrow> nat \<times> scheduler" where
  "setTimeout cb d s =
     (nextTimerId s,
      s\<lparr>timers := timers s @ [\<lparr>timerId = nextTimerId s, callback = cb, delay = d\<rparr>],
        nextTimerId := Suc (nextTimerId s)\<rparr>)"

definition clearTimeout :: "nat \<Rightarrow> scheduler \<Rightarrow> scheduler" where
  "clearTimeout i s = s\<lparr>timers := filter (\<lambda>t. timerId t \<noteq> i) (timers s)\<rparr>"

text \<open>
  \<^verbatim>\<open>setTimeout(scheduleNextCheck, REFRESH_RETRY_DELAY)\<close>, written twice in the file.
  The first argument of the model is the binding of \<^verbatim>\<open>REFRESH_RETRY_DELAY\<close> in the
  module's scope: evaluating an unbound identifier throws before the timer is armed. The
  timer's handle is not stored in \<^verbatim>\<open>timeoutId\<close>.
\<close>

definition armRetry :: "int option \<Rightarrow> scheduler \<Rightarrow> exn + scheduler" where
  "armRetry rrd s =
     (case rrd of
        None \<Rightarrow> Inl (ReferenceError ''REFRESH_RETRY_DELAY is not defined'')
      | Some d \<Rightarrow> Inr (snd (setTimeout RetryTimer d s)))"

text \<open>
  refresh.ts declares \<^verbatim>\<open>SESSION_TIMEOUT\<close>, \<^verbatim>\<open>REFRESH_THRESHOLD\<close>,
  \<^verbatim>\<open>TOKEN_REFRESH_ATTEMPTS\<close> and \<^verbatim>\<open>TOKEN_REFRESH_DELAY\<close>, and imports five
  functions; \<^verbatim>\<open>REFRESH_RETRY_DELAY\<close> is neither declared nor imported there.
\<close>

definition REFRESH_RETRY_DELAY :: "int option" where
  "REFRESH_RETRY_DELAY = None"

text \<open>Calling \<^verbatim>\<open>scheduleNextCheck()\<close>: it runs up to its first \<^verbatim>\<open>await\<close>.\<close>

definition scheduleNextCheck :: "scheduler \<Rightarrow> scheduler" where
  "scheduleNextCheck s = s\<lparr>awaitingToken := Suc (awaitingToken s)\<rparr>"

text \<open>
  The rest of \<^verbatim>\<open>scheduleNextCheck\<close>, once \<^verbatim>\<open>getIdTokenResult\<close> has settled with
  \<open>tokenResult\<close> (the issue time in milliseconds, \<open>None\<close> when
  \<^verbatim>\<open>issuedAtTime\<close> is missing) and \<^verbatim>\<open>Date.now()\<close> has returned \<open>now\<close>.
  A rejection of the asynchronous function itself is recorded in \<open>unhandled\<close>.
\<close>

definition scheduleNextCheck_resume ::
  "int option \<Rightarrow> exn + int option \<Rightarrow> int \<Rightarrow> scheduler \<Rightarrow> scheduler" where
  "scheduleNextCheck_resume rrd tokenResult now s =
     (case (case tokenResult of
              Inl e \<Rightarrow> Inl e
            | Inr None \<Rightarrow> Inl (Error ''Invalid token issue time'')
            | Inr (Some issuedAt) \<Rightarrow>
                (let tokenAge = now - issuedAt;
                     timeUntilRefresh = max 0 (SESSION_TIMEOUT - REFRESH_THRESHOLD - tokenAge);
                     (i, s') = setTimeout RefreshTimer (max 0 timeUntilRefresh) s
                 in Inr (s'\<lparr>timeoutId := Some i\<rparr>)))
      of
        Inr s' \<Rightarrow> s'
      | Inl e \<Rightarrow>
          (case armRetry rrd s of
             Inl e' \<Rightarrow> s\<lparr>unhandled := unhandled s @ [e']\<rparr>
           | Inr s' \<Rightarrow> s'))"

text \<open>
  The timer callback after \<^verbatim>\<open>refreshSession(user)\<close> has settled (\<open>None\<close>: resolved).
  In the \<^verbatim>\<open>catch\<close> block the retry timer is armed first and \<^verbatim>\<open>onError\<close> is
  called second.
\<close>

definition refreshTimer_resume :: "int option \<Rightarrow> exn option \<Rightarrow> scheduler \<Rightarrow> scheduler" where
  "refreshTimer_resume rrd settled s =
     (case settled of
        None \<Rightarrow> scheduleNextCheck (s\<lparr>onRefreshCalls := Suc (onRefreshCalls s)\<rparr>)
      | Some e \<Rightarrow>
          (case armRetry rrd s of
             Inl e' \<Rightarrow> s\<lparr>unhandled := unhandled s @ [e']\<rparr>
           | Inr s' \<Rightarrow>
               s'\<lparr>onErrorCalls := onErrorCalls s' @
                     [if instanceofError e then e else Error ''Session refresh failed'']\<rparr>))"

datatype event =
    TokenResult "exn + int option" int
  | TimerFires nat
  | RefreshSettles "exn option"
  | Dispose

text \<open>
  One turn of the event loop. An event that nothing waits for changes nothing. The disposer
  is the function returned by \<^verbatim>\<open>setupSessionRefresh\<close>:
  \<^verbatim>\<open>if (timeoutId) clearTimeout(timeoutId)\<close>.
\<close>

fun step :: "int option \<Rightarrow> event \<Rightarrow> scheduler \<Rightarrow> scheduler" where
  "step rrd (TokenResult r now) s =
     (if awaitingToken s = 0 then s
      else scheduleNextCheck_resume rrd r now (s\<lparr>awaitingToken := awaitingToken s - 1\<rparr>))"
| "step rrd (TimerFires i) s =
     (case find (\<lambda>t. timerId t = i) (timers s) of
        None \<Rightarrow> s
      | Some t \<Rightarrow>
          (case callback t of
             RefreshTimer \<Rightarrow>
               (clearTimeout i s)\<lparr>refreshCalls := Suc (refreshCalls s),
                                  awaitingRefresh := Suc (awaitingRefresh s)\<rparr>
           | RetryTimer \<Rightarrow> scheduleNextCheck (clearTimeout i s)))"
| "step rrd (RefreshSettles r) s =
     (if awaitingRefresh s = 0 then s
      else refreshTimer_resume rrd r (s\<lparr>awaitingRefresh := awaitingRefresh s - 1\<rparr>))"
| "step rrd Dispose s =
     (case timeoutId s of
        None \<Rightarrow> s
      | Some i \<Rightarrow> if i = 0 then s else clearTimeout i s)"

fun run :: "int option \<Rightarrow> event list \<Rightarrow> scheduler \<Rightarrow> scheduler" where
  "run rrd [] s = s"
| "run rrd (e # es) s = run rrd es (step rrd e s)"

text \<open>
  \<^verbatim>\<open>setupSessionRefresh(user, onRefresh, onError)\<close>: \<^verbatim>\<open>timeoutId\<close> is declared
  without a value, \<^verbatim>\<open>scheduleNextCheck()\<close> is called once, and the disposer is
  returned. Timer handles are positive.
\<close>

definition setupSessionRefresh :: scheduler where
  "setupSessionRefresh =
     scheduleNextCheck
       \<lparr>timers = [], nextTimerId = 1, timeoutId = None, awaitingToken = 0,
        awaitingRefresh = 0, refreshCalls = 0, onRefreshCalls = 0, onErrorCalls = [],
        unhandled = []\<rparr>"

text \<open>The scheduler is idle when no timer is armed and no invocation is suspended.\<close>

definition stopped :: "scheduler \<Rightarrow> bool" where
  "stopped s = (timers s = [] \<and> awaitingToken s = 0 \<and> awaitingRefresh s = 0)"


section \<open>Admin permission resolver (services/auth/admin/permissions.ts)\<close>

text \<open>
  What \<^verbatim>\<open>verifyAdminPermissions\<close> reads from its collaborators: the signed-in user,
  the network flag, the outcome of the retried forced token refresh (\<open>None\<close>: it
  resolved), the answer of \<^verbatim>\<open>waitForNetwork\<close>, the configured privileged email,
  the outcome of the \<^verbatim>\<open>verifyAdmin\<close> callable (\<^verbatim>\<open>isAdmin\<close>, or what was thrown),
  and the outcome of reading the user's profile document (\<open>Inr None\<close>: no document).
\<close>

record authUser =
  uid :: string
  userEmail :: "string option"

record userDocData =
  docRole :: "string option"
  docAdmin :: "bool option"

record permissionEnv =
  currentUser :: "authUser option"
  isOnline :: bool
  refreshToken :: "exn option"
  hasNetwork :: bool
  DEFAULT_ADMIN_EMAIL :: string
  verifyAdmin :: "exn + bool"
  getUserDoc :: "exn + userDocData option"

fun errorCode :: "exn \<Rightarrow> string option" where
  "errorCode (FirebaseError c m) = Some c"
| "errorCode _ = None"

text \<open>The last \<^verbatim>\<open>try\<close> block of the function: the Firestore fallback.\<close>

definition firestoreFallback :: "permissionEnv \<Rightarrow> exn + bool" where
  "firestoreFallback env =
     (case getUserDoc env of
        Inr (Some userData) \<Rightarrow>
          if docRole userData = Some ''admin'' \<or> docAdmin userData = Some True
          then Inr True else Inr False
      | Inr None \<Rightarrow> Inr False
      | Inl e \<Rightarrow>
          if errorCode e = Some ''permission-denied'' then Inr False else Inl e)"

text \<open>
  The body of the outer \<^verbatim>\<open>try\<close>. An exception thrown by the callable is logged and
  the function goes on to the fallback.
\<close>

definition verifyAdminPermissions_try :: "permissionEnv \<Rightarrow> exn + bool" where
  "verifyAdminPermissions_try env =
     (case currentUser env of
        None \<Rightarrow> Inr False
      | Some user \<Rightarrow>
          (case refreshToken env of
             Some e \<Rightarrow> Inl e
           | None \<Rightarrow>
               if \<not> isOnline env \<and> \<not> hasNetwork env
               then Inl (Error ''No network connection available'')
               else if userEmail user = Some (DEFAULT_ADMIN_EMAIL env) then Inr True
               else if verifyAdmin env = Inr True then Inr True
               else firestoreFallback env))"

text \<open>The outer \<^verbatim>\<open>catch\<close> logs the error and returns \<^verbatim>\<open>false\<close>.\<close>

definition verifyAdminPermissions :: "permissionEnv \<Rightarrow> exn + bool" where
  "verifyAdminPermissions env =
     (case verifyAdminPermissions_try env of
        Inl e \<Rightarrow> Inr False
      | Inr b \<Rightarrow> Inr b)"


section \<open>Documents, the document store and the batched write\<close>

text \<open>
  A document is a JavaScript object literal: field names with values. The store maps a
  collection name and a document id to a document. A batch is a list of writes;
  \<^verbatim>\<open>batch.commit()\<close> applies all of them or none: it fails as a whole when the
  service reports a fault or when an \<^verbatim>\<open>update\<close> names a document that does not
  exist.
\<close>

datatype fieldValue =
    Str string
  | Bool bool
  | StrList "string list"
  | Null
  | Undefined
  | serverTimestamp
  | IsoString int

type_synonym document = "(string \<times> fieldValue) list"

type_synonym store = "string \<times> string \<Rightarrow> document option"

datatype writeOp =
    SetDoc string string document
  | UpdateDoc string string document

fun mergeFields :: "document \<Rightarrow> document \<Rightarrow> document" where
  "mergeFields [] d = d"
| "mergeFields ((k, v) # fs) d = mergeFields fs (AList.update k v d)"

fun applyWrite :: "writeOp \<Rightarrow> store \<Rightarrow> store option" where
  "applyWrite (SetDoc c i d) m = Some (m((c, i) \<mapsto> d))"
| "applyWrite (UpdateDoc c i fs) m =
     (case m (c, i) of
        None \<Rightarrow> None
      | Some d \<Rightarrow> Some (m((c, i) \<mapsto> mergeFields fs d)))"

fun applyWrites :: "writeOp list \<Rightarrow> store \<Rightarrow> store option" where
  "applyWrites [] m = Some m"
| "applyWrites (x # xs) m =
     (case applyWrite x m of
        None \<Rightarrow> None
      | Some m' \<Rightarrow> applyWrites xs m')"

text \<open>
  \<^verbatim>\<open>batch.set(ref, data)\<close> validates the data when it is called: a field whose
  value is \<^verbatim>\<open>undefined\<close> makes it throw, and nothing is added to the batch (the
  store is opened without \<^verbatim>\<open>ignoreUndefinedProperties\<close>). The error names the first
  such field and the path of the document.
\<close>

fun undefinedField :: "document \<Rightarrow> string option" where
  "undefinedField [] = None"
| "undefinedField ((k, v) # fs) = (if v = Undefined then Some k else undefinedField fs)"

definition invalidData :: "string \<Rightarrow> string \<Rightarrow> string \<Rightarrow> exn" where
  "invalidData field c i =
     FirebaseError ''invalid-argument''
       (''Function WriteBatch.set() called with invalid data. Unsupported field value: '' @
        ''undefined (found in field '' @ field @ '' in document '' @ c @ ''/'' @ i @ '')'')"

definition batchSet :: "string \<Rightarrow> string \<Rightarrow> document \<Rightarrow> exn + writeOp" where
  "batchSet c i d =
     (case undefinedField d of
        Some field \<Rightarrow> Inl (invalidData field c i)
      | None \<Rightarrow> Inr (SetDoc c i d))"

text \<open>
  What the workflow can change: the documents, the accounts it has created at the identity
  provider (email and uid), and the number of batches the store has applied.
\<close>

record world =
  docs :: store
  accounts :: "(string \<times> string) list"
  commits :: nat

definition commit :: "exn option \<Rightarrow> writeOp list \<Rightarrow> world \<Rightarrow> (exn + unit) \<times> world" where
  "commit fault batch w =
     (case fault of
        Some e \<Rightarrow> (Inl e, w)
      | None \<Rightarrow>
          (case applyWrites batch (docs w) of
             None \<Rightarrow> (Inl (FirebaseError ''not-found'' ''No document to update''), w)
           | Some m \<Rightarrow> (Inr (), w\<lparr>docs := m, commits := Suc (commits w)\<rparr>)))"


section \<open>Retry engine (services/firebase/retry)\<close>

record retryOptions =
  maxAttempts :: nat
  initialDelay :: nat
  backoffMultiplier :: nat
  waitForNetwork :: bool

datatype retryEvent = Attempt nat | Sleep nat | AwaitNetwork

text \<open>
  Modelled from the spec: the source of \<^verbatim>\<open>retry\<close> is not among the files; its
  contract is section 4.1. The operation is invoked; on failure, if attempts remain, the
  engine sleeps \<open>initialDelay * backoffMultiplier ^ (attempt - 1)\<close> and retries;
  when \<open>waitForNetwork\<close> is set and the network monitor reports offline it suspends
  first, without consuming an attempt; exhausting the attempts surfaces the last error
  unchanged. Section 7 adds that errors which are not retriable propagate at once; which
  errors are retriable is the parameter \<open>retriable\<close>. The operation is invoked at
  least once. The third component of the result lists what the engine did.
\<close>

fun retryFrom ::
  "(exn \<Rightarrow> bool) \<Rightarrow> (nat \<Rightarrow> bool) \<Rightarrow> retryOptions \<Rightarrow> (nat \<Rightarrow> 's \<Rightarrow> (exn + 'a) \<times> 's) \<Rightarrow>
   nat \<Rightarrow> nat \<Rightarrow> 's \<Rightarrow> (exn + 'a) \<times> 's \<times> retryEvent list" where
  "retryFrom retriable online opts operation attempt 0 s =
     (case operation attempt s of
        (r, s') \<Rightarrow>
          (r, s',
           (if waitForNetwork opts \<and> \<not> online attempt then [AwaitNetwork] else []) @
           [Attempt attempt]))"
| "retryFrom retriable online opts operation attempt (Suc remaining) s =
     (case operation attempt s of
        (Inr v, s') \<Rightarrow>
          (Inr v, s',
           (if waitForNetwork opts \<and> \<not> online attempt then [AwaitNetwork] else []) @
           [Attempt attempt])
      | (Inl e, s') \<Rightarrow>
          if retriable e
          then (case retryFrom retriable online opts operation (Suc attempt) remaining s' of
                  (r, s'', evs) \<Rightarrow>
                    (r, s'',
                     (if waitForNetwork opts \<and> \<not> online attempt then [AwaitNetwork] else []) @
                     [Attempt attempt,
                      Sleep (initialDelay opts * backoffMultiplier opts ^ (attempt - 1))] @ evs))
          else (Inl e, s',
                (if waitForNetwork opts \<and> \<not> online attempt then [AwaitNetwork] else []) @
                [Attempt attempt]))"

text \<open>The attempts and the sleeps that a run of the retry engine lists, in order.\<close>

fun attemptsOf :: "retryEvent list \<Rightarrow> nat list" where
  "attemptsOf [] = []"
| "attemptsOf (Attempt k # es) = k # attemptsOf es"
| "attemptsOf (ev # es) = attemptsOf es"

fun sleepsOf :: "retryEvent list \<Rightarrow> nat list" where
  "sleepsOf [] = []"
| "sleepsOf (Sleep d # es) = d # sleepsOf es"
| "sleepsOf (ev # es) = sleepsOf es"

text \<open>
  Modelled from the spec: \<^verbatim>\<open>retry(operation, options)\<close> starts with attempt 1 and
  has \<open>maxAttempts\<close> attempts in all.
\<close>

definition retry ::
  "(exn \<Rightarrow> bool) \<Rightarrow> (nat \<Rightarrow> bool) \<Rightarrow> retryOptions \<Rightarrow> (nat \<Rightarrow> 's \<Rightarrow> (exn + 'a) \<times> 's) \<Rightarrow>
   's \<Rightarrow> (exn + 'a) \<times> 's \<times> retryEvent list" where
  "retry retriable online opts operation s =
     retryFrom retriable online opts operation 1 (maxAttempts opts - 1) s"


section \<open>Inputs and results of the approval workflow\<close>

text \<open>
  \<^verbatim>\<open>String.prototype.toLowerCase\<close> and \<^verbatim>\<open>String.prototype.trim\<close> belong to
  the platform and act on Unicode strings. The workflows apply them to the email, the name
  and the staff code. The model takes the two functions as they are given, so nothing that
  is proved depends on how they act.
\<close>

record strings =
  toLowerCase :: "string \<Rightarrow> string"
  trim :: "string \<Rightarrow> string"

record userData =
  email :: "string option"
  name :: string
  role :: string
  staffCode :: "string option"
  storeIds :: "string list option"
  primaryStoreId :: "string option"
  forceContinue :: bool

text \<open>\<^verbatim>\<open>userData.email?.toLowerCase().trim()\<close>\<close>

definition normalizedEmail :: "strings \<Rightarrow> userData \<Rightarrow> string option" where
  "normalizedEmail js userData =
     map_option (\<lambda>e. trim js (toLowerCase js e)) (email userData)"

record existingUserDetails =
  auth :: bool
  authUid :: "string option"
  users :: bool
  sales :: bool

record ApprovalResult =
  success :: bool
  userId :: "string option"
  error :: "string option"
  existingUser :: "existingUserDetails option"
  resultUid :: "string option"

definition failure :: "string \<Rightarrow> ApprovalResult" where
  "failure m =
     \<lparr>success = False, userId = None, error = Some m, existingUser = None, resultUid = None\<rparr>"

text \<open>
  \<^verbatim>\<open>requestStatus === 'approved' || requestStatus === 'rejected'\<close>, the test both
  workflows make on the request document they have loaded.
\<close>

definition alreadyProcessed :: "document \<Rightarrow> bool" where
  "alreadyProcessed requestData =
     (map_of requestData ''status'' = Some (Str ''approved'') \<or>
      map_of requestData ''status'' = Some (Str ''rejected''))"

text \<open>
  A function body either throws, returns from the enclosing function, or goes on with a
  value. A promise either resolves or rejects.
\<close>

datatype 'a flow = Throw exn | Return ApprovalResult | Continue 'a

datatype 'a promise = Resolved 'a | Rejected exn


section \<open>The approval workflow of services/auth/approval.ts\<close>

text \<open>
  The environment answers every awaited call at the moment it is made:
  \<^verbatim>\<open>verifyAdminPermissions()\<close> in the loop (attempts 0, 1, 2),
  \<^verbatim>\<open>getDoc(requestRef)\<close>, \<^verbatim>\<open>createUserWithEmailAndPassword\<close> (the new uid),
  the query on \<^verbatim>\<open>users\<close> by email, \<^verbatim>\<open>fetchSignInMethodsForEmail\<close>, and, for
  each attempt of the commit (1, 2, ...), \<^verbatim>\<open>verifyAdminPermissions()\<close>, the fault of
  \<^verbatim>\<open>batch.commit()\<close> if any, and the network flag. The \<open>world\<close> argument of the
  workflow is the store as it stands when the workflow writes, so a document may have
  changed since it was read.
\<close>

record approvalEnv =
  networkOnline :: bool
  signedIn :: "string option"
  loopPermission :: "nat \<Rightarrow> bool"
  getRequestDoc :: "exn + document option"
  createUserWithEmailAndPassword :: "exn + string"
  getUserDocsByEmail :: "exn + document list"
  fetchSignInMethodsForEmail :: "exn + string list"
  commitPermission :: "nat \<Rightarrow> bool"
  commitFault :: "nat \<Rightarrow> exn option"
  retriable :: "exn \<Rightarrow> bool"
  onlineAt :: "nat \<Rightarrow> bool"
  dateNow :: int

text \<open>
  \<^verbatim>\<open>for (let attempt = 0; attempt < 3; attempt++)\<close>: the loop stops at the first
  attempt that grants the permission.
\<close>

fun permissionLoop :: "(nat \<Rightarrow> bool) \<Rightarrow> nat \<Rightarrow> nat \<Rightarrow> bool" where
  "permissionLoop verify attempt 0 = False"
| "permissionLoop verify attempt (Suc remaining) =
     (if verify attempt then True else permissionLoop verify (Suc attempt) remaining)"

text \<open>Lines 43 to 104: every check before an account is created.\<close>

definition approval_checks ::
  "strings \<Rightarrow> approvalEnv \<Rightarrow> userData \<Rightarrow> exn + string \<times> document" where
  "approval_checks js env userData =
     (if \<not> networkOnline env then Inl (Error ''No network connection available'')
      else if signedIn env = None
      then Inl (Error ''You must be signed in to perform this action'')
      else if \<not> permissionLoop (loopPermission env) 0 3
      then Inl (Error ''You do not have permission to approve requests'')
      else
        (case normalizedEmail js userData of
           None \<Rightarrow> Inl (Error ''Email address is required'')
         | Some e \<Rightarrow>
             if e = [] then Inl (Error ''Email address is required'')
             else
               (case getRequestDoc env of
                  Inl err \<Rightarrow> Inl err
                | Inr None \<Rightarrow> Inl (Error ''Authentication request not found'')
                | Inr (Some requestData) \<Rightarrow>
                    if alreadyProcessed requestData
                    then Inl (FirebaseError ''failed-precondition''
                                ''This request has already been processed'')
                    else Inr (e, requestData))))"

text \<open>
  Lines 110 to 161: the account is created, or the email is already in use. In the second
  case the function returns on its own when a user profile exists for the email, or when
  the identity provider lists a sign-in method for it; the second return has no
  \<^verbatim>\<open>error\<close> field.
\<close>

definition approval_createUser :: "approvalEnv \<Rightarrow> string \<Rightarrow> world \<Rightarrow> string flow \<times> world" where
  "approval_createUser env e w =
     (case createUserWithEmailAndPassword env of
        Inr newUid \<Rightarrow>
          (if newUid = [] then Throw (Error ''Failed to get valid user ID'')
           else Continue newUid,
           w\<lparr>accounts := accounts w @ [(e, newUid)]\<rparr>)
      | Inl err \<Rightarrow>
          (if errorCode err = Some ''auth/email-already-in-use''
           then
             (case getUserDocsByEmail env of
                Inl err' \<Rightarrow> Throw err'
              | Inr userDocs \<Rightarrow>
                  if userDocs \<noteq> []
                  then Return (failure ''This email already has an active account'')
                  else
                    (case fetchSignInMethodsForEmail env of
                       Inl err' \<Rightarrow> Throw err'
                     | Inr methods \<Rightarrow>
                         if length methods > 0
                         then Return
                           \<lparr>success = False, userId = None, error = None,
                            existingUser =
                              Some \<lparr>auth = True, authUid = None, users = False, sales = False\<rparr>,
                            resultUid = None\<rparr>
                         else Throw err))
           else Throw err,
           w))"

text \<open>
  The documents of the batch. The object literal of the user profile names
  \<^verbatim>\<open>approved: true\<close> twice; the field is listed once.
\<close>

definition userProfileData :: "strings \<Rightarrow> string \<Rightarrow> userData \<Rightarrow> document" where
  "userProfileData js e userData =
     [(''email'', Str e),
      (''name'', Str (trim js (name userData))),
      (''role'', Str (role userData)),
      (''admin'', Bool (role userData = ''admin'')),
      (''approved'', Bool True),
      (''staffCode'', Str (case staffCode userData of None \<Rightarrow> [] | Some c \<Rightarrow> trim js c)),
      (''storeIds'', StrList (case storeIds userData of None \<Rightarrow> [] | Some l \<Rightarrow> l)),
      (''primaryStoreId'',
         (case primaryStoreId userData of None \<Rightarrow> Undefined | Some p \<Rightarrow> Str p)),
      (''createdAt'', serverTimestamp),
      (''lastLoginAt'', Null),
      (''updatedAt'', serverTimestamp)]"

definition salespersonData ::
  "strings \<Rightarrow> approvalEnv \<Rightarrow> string \<Rightarrow> userData \<Rightarrow> document" where
  "salespersonData js env e userData =
     [(''email'', Str e),
      (''name'', Str (trim js (name userData))),
      (''role'', Str ''team_member''),
      (''staffCode'',
         (case staffCode userData of None \<Rightarrow> Undefined | Some c \<Rightarrow> Str (trim js c))),
      (''storeIds'', (case storeIds userData of None \<Rightarrow> Undefined | Some l \<Rightarrow> StrList l)),
      (''primaryStoreId'',
         (case primaryStoreId userData of None \<Rightarrow> Undefined | Some p \<Rightarrow> Str p)),
      (''approved'', Bool True),
      (''createdAt'', IsoString (dateNow env)),
      (''updatedAt'', serverTimestamp)]"

definition requestUpdate :: "string \<Rightarrow> document" where
  "requestUpdate reviewerId =
     [(''status'', Str ''approved''),
      (''reviewedBy'', Str reviewerId),
      (''reviewedAt'', serverTimestamp)]"

text \<open>
  Lines 163 to 239, in the order of the source: the user profile is set; for the role
  \<open>admin\<close> the custom claims are set; for the role \<open>team_member\<close> the
  salesperson profile is set; the request is updated. approval.ts imports nothing from
  \<^verbatim>\<open>firebase/functions\<close>, so \<^verbatim>\<open>getFunctions\<close> is unbound where the admin
  branch calls it. The fields of the update are never \<^verbatim>\<open>undefined\<close>.
\<close>

definition approval_batch ::
  "strings \<Rightarrow> approvalEnv \<Rightarrow> string \<Rightarrow> string \<Rightarrow> string \<Rightarrow> string \<Rightarrow> userData \<Rightarrow>
   exn + writeOp list" where
  "approval_batch js env requestId reviewerId e newUid userData =
     (case batchSet ''users'' newUid (userProfileData js e userData) of
        Inl err \<Rightarrow> Inl err
      | Inr setUser \<Rightarrow>
          if role userData = ''admin''
          then Inl (ReferenceError ''getFunctions is not defined'')
          else if role userData = ''team_member''
          then
            (case batchSet ''salespeople'' newUid (salespersonData js env e userData) of
               Inl err \<Rightarrow> Inl err
             | Inr setSalesperson \<Rightarrow>
                 Inr [setUser, setSalesperson,
                      UpdateDoc ''authRequests'' requestId (requestUpdate reviewerId)])
          else Inr [setUser, UpdateDoc ''authRequests'' requestId (requestUpdate reviewerId)])"

text \<open>
  Lines 244 to 257: the operation handed to \<^verbatim>\<open>retry\<close>, and the options written
  there (\<^verbatim>\<open>backoffMultiplier\<close> is left to its default, 2).
\<close>

definition commitAttempt ::
  "approvalEnv \<Rightarrow> writeOp list \<Rightarrow> nat \<Rightarrow> world \<Rightarrow> (exn + unit) \<times> world" where
  "commitAttempt env batch attempt w =
     (if \<not> commitPermission env attempt
      then (Inl (Error ''Admin permissions required for this operation''), w)
      else commit (commitFault env attempt) batch w)"

definition commitOptions :: retryOptions where
  "commitOptions =
     \<lparr>maxAttempts = 5, initialDelay = 1000, backoffMultiplier = 2, waitForNetwork = True\<rparr>"

definition commitBatch ::
  "approvalEnv \<Rightarrow> writeOp list \<Rightarrow> world \<Rightarrow> (exn + unit) \<times> world \<times> retryEvent list" where
  "commitBatch env batch w =
     retry (retriable env) (onlineAt env) commitOptions (commitAttempt env batch) w"

text \<open>The body of the outer \<^verbatim>\<open>try\<close>.\<close>

definition approveAuthRequest_try ::
  "strings \<Rightarrow> approvalEnv \<Rightarrow> string \<Rightarrow> string \<Rightarrow> userData \<Rightarrow> world \<Rightarrow>
   (exn + ApprovalResult) \<times> world" where
  "approveAuthRequest_try js env requestId reviewerId userData w =
     (case approval_checks js env userData of
        Inl err \<Rightarrow> (Inl err, w)
      | Inr (e, requestData) \<Rightarrow>
          (case approval_createUser env e w of
             (Throw err, w') \<Rightarrow> (Inl err, w')
           | (Return r, w') \<Rightarrow> (Inr r, w')
           | (Continue newUid, w') \<Rightarrow>
               (case approval_batch js env requestId reviewerId e newUid userData of
                  Inl err \<Rightarrow> (Inl err, w')
                | Inr batch \<Rightarrow>
                    (case commitBatch env batch w' of
                       (Inl err, w'', evs) \<Rightarrow> (Inl err, w'')
                     | (Inr u, w'', evs) \<Rightarrow>
                         (Inr \<lparr>success = True, userId = Some newUid, error = None,
                               existingUser = None, resultUid = None\<rparr>, w'')))))"

text \<open>The outer \<^verbatim>\<open>catch\<close>: every thrown value becomes a result.\<close>

definition approval_catch :: "exn \<Rightarrow> ApprovalResult" where
  "approval_catch err =
     (case err of
        FirebaseError c m \<Rightarrow>
          if c = ''auth/email-already-in-use''
          then failure ''This email is already registered with another account''
          else if c = ''auth/invalid-email'' then failure ''Invalid email address format''
          else if c = ''permission-denied''
          then failure ''You do not have permission to approve requests''
          else failure (if m = [] then ''Failed to approve request'' else m)
      | _ \<Rightarrow>
          failure (if instanceofError err then message err else ''Failed to approve request''))"

definition approveAuthRequest ::
  "strings \<Rightarrow> approvalEnv \<Rightarrow> string \<Rightarrow> string \<Rightarrow> userData \<Rightarrow> world \<Rightarrow>
   ApprovalResult promise \<times> world" where
  "approveAuthRequest js env requestId reviewerId userData w =
     (case approveAuthRequest_try js env requestId reviewerId userData w of
        (Inl err, w') \<Rightarrow> (Resolved (approval_catch err), w')
      | (Inr r, w') \<Rightarrow> (Resolved r, w'))"


section \<open>The approval workflow of services/auth/validation.ts\<close>

text \<open>
  \<^verbatim>\<open>checkUserRecords\<close> is imported from \<^verbatim>\<open>./checks\<close>, which is not among the
  files; what the workflow reads of its answer is a uid and two flags, one per profile
  collection. Every call of it is answered by the environment, as is every call of
  \<^verbatim>\<open>fetchSignInMethodsForEmail\<close>.
\<close>

record records =
  recordsUid :: "string option"
  recordsUsers :: bool
  recordsSales :: bool

text \<open>A JavaScript string that may be missing is truthy when it is there and not empty.\<close>

fun truthy :: "string option \<Rightarrow> bool" where
  "truthy None = False"
| "truthy (Some s) = (s \<noteq> [])"

text \<open>
  One run of \<^verbatim>\<open>checkExistingUser\<close> makes three calls: the sign-in methods and the
  records inside \<^verbatim>\<open>checkAuthAccount\<close>, and the records once more.
\<close>

record checkEnv =
  signInMethods :: "exn + string list"
  accountRecords :: "exn + records"
  profileRecords :: "exn + records"

definition checkAuthAccount_try :: "checkEnv \<Rightarrow> exn + bool \<times> string option" where
  "checkAuthAccount_try c =
     (case signInMethods c of
        Inl err \<Rightarrow>
          if errorCode err = Some ''auth/invalid-api-key'' then Inr (False, None) else Inl err
      | Inr methods \<Rightarrow>
          if \<not> length methods > 0 then Inr (False, None)
          else
            (case accountRecords c of
               Inr r \<Rightarrow>
                 if truthy (recordsUid r) then Inr (True, recordsUid r) else Inr (True, None)
             | Inl err \<Rightarrow>
                 if errorCode err = Some ''permission-denied'' then Inr (True, None)
                 else Inl err))"

definition checkAuthAccount :: "checkEnv \<Rightarrow> bool \<times> string option" where
  "checkAuthAccount c =
     (case checkAuthAccount_try c of
        Inl err \<Rightarrow> (False, None)
      | Inr r \<Rightarrow> r)"

record UserExistenceCheck =
  userExists :: bool
  details :: existingUserDetails

definition checkExistingUser :: "checkEnv \<Rightarrow> UserExistenceCheck" where
  "checkExistingUser c =
     (case checkAuthAccount c of
        (authExists, foundUid) \<Rightarrow>
          (case profileRecords c of
             Inl err \<Rightarrow>
               \<lparr>userExists = False,
                details = \<lparr>auth = False, authUid = None, users = False, sales = False\<rparr>\<rparr>
           | Inr r \<Rightarrow>
               \<lparr>userExists = (authExists \<or> recordsUsers r \<or> recordsSales r),
                details =
                  \<lparr>auth = authExists,
                   authUid = (if truthy foundUid then foundUid else None),
                   users = recordsUsers r,
                   sales = recordsSales r\<rparr>\<rparr>))"

definition getExistingUserError :: "UserExistenceCheck \<Rightarrow> string option" where
  "getExistingUserError checkResult =
     (if \<not> userExists checkResult then None
      else if users (details checkResult) \<and> sales (details checkResult)
      then Some ''This account already exists. Please check User Management for account status.''
      else if auth (details checkResult) \<and> \<not> users (details checkResult) \<and>
              \<not> sales (details checkResult)
      then Some ''Authentication account exists. Click Continue to create required profiles.''
      else if users (details checkResult) \<or> sales (details checkResult)
      then Some ''Incomplete account records found. Please check User Management or contact administrator.''
      else Some ''This email is already registered. Please use a different email address.'')"

text \<open>
  The environment of one call: the answer of \<^verbatim>\<open>verifyAdminPermissions()\<close>, the
  signed-in user, the three answers of the first existence check, the request document,
  the three answers of the final existence check, and inside
  \<^verbatim>\<open>createUserAccount\<close> the new uid, the sign-in methods and the records looked up
  when the email is in use; then the records read in the handler of the creation step, and
  the fault of \<^verbatim>\<open>batch.commit()\<close> if any.
\<close>

record validationEnv =
  hasPermission :: bool
  authCurrentUser :: "string option"
  firstCheck :: checkEnv
  requestDoc :: "exn + document option"
  finalCheck :: checkEnv
  createUser :: "exn + string"
  lookupMethods :: "exn + string list"
  lookupRecords :: "exn + records"
  handlerRecords :: "exn + records"
  batchFault :: "exn option"
  clock :: int

text \<open>
  \<^verbatim>\<open>createUserAccount(email, password, existingUid)\<close>, returning \<^verbatim>\<open>user.uid\<close>. A
  failure of the lookup is logged and leads to the same error as a lookup that finds
  nothing. The test of \<^verbatim>\<open>getAuth()\<close> for a missing instance is left out: the caller
  has read \<^verbatim>\<open>auth.currentUser\<close> from the same instance before.
\<close>

definition createUserAccount ::
  "validationEnv \<Rightarrow> string \<Rightarrow> string option \<Rightarrow> world \<Rightarrow> (exn + string) \<times> world" where
  "createUserAccount env e existingUid w =
     (if truthy existingUid then (Inr (case existingUid of Some u \<Rightarrow> u | None \<Rightarrow> []), w)
      else
        (case createUser env of
           Inr newUid \<Rightarrow> (Inr newUid, w\<lparr>accounts := accounts w @ [(e, newUid)]\<rparr>)
         | Inl err \<Rightarrow>
             (if errorCode err = Some ''auth/email-already-in-use''
              then
                (case (case lookupMethods env of
                         Inl lookupError \<Rightarrow> None
                       | Inr methods \<Rightarrow>
                           if length methods > 0
                           then (case lookupRecords env of
                                   Inl lookupError \<Rightarrow> None
                                 | Inr r \<Rightarrow> if truthy (recordsUid r) then recordsUid r else None)
                           else None)
                 of
                   Some foundUid \<Rightarrow> Inr foundUid
                 | None \<Rightarrow> Inl (Error ''Failed to create or find user account''))
              else Inl err,
              w)))"

text \<open>Lines 350 to 366: the existence gate, skipped when \<^verbatim>\<open>forceContinue\<close> is set.\<close>

definition existingUserGate :: "validationEnv \<Rightarrow> userData \<Rightarrow> ApprovalResult option" where
  "existingUserGate env userData =
     (if \<not> forceContinue userData
      then
        (case getExistingUserError (checkExistingUser (firstCheck env)) of
           Some errorMessage \<Rightarrow>
             Some \<lparr>success = False, userId = None, error = Some errorMessage,
                   existingUser = Some (details (checkExistingUser (firstCheck env))),
                   resultUid = None\<rparr>
         | None \<Rightarrow> None)
      else None)"

text \<open>Lines 383 to 408: the second existence check, just before the account is created.\<close>

definition finalGate :: "validationEnv \<Rightarrow> userData \<Rightarrow> ApprovalResult option" where
  "finalGate env userData =
     (let d = details (checkExistingUser (finalCheck env)) in
      if userExists (checkExistingUser (finalCheck env))
      then
        (if auth d \<and> \<not> users d \<and> \<not> sales d \<and> forceContinue userData then None
         else if \<not> forceContinue userData
         then Some
           \<lparr>success = False, userId = None,
            error = Some
              (if users d \<or> sales d
               then ''This account already exists. Please check User Management for account status.''
               else if auth d
               then ''Authentication account exists. Click Continue to create required profiles.''
               else ''This email is already registered. Please use a different email address.''),
            existingUser = Some d, resultUid = None\<rparr>
         else None)
      else None)"

text \<open>
  Lines 427 to 455: the handler of the creation step. Only a \<^verbatim>\<open>FirebaseError\<close> is
  turned into a result here; anything else is thrown again.
\<close>

definition creationHandler :: "validationEnv \<Rightarrow> exn \<Rightarrow> string flow" where
  "creationHandler env err =
     (case err of
        FirebaseError c m \<Rightarrow>
          if c = ''auth/email-already-in-use''
          then
            (case handlerRecords env of
               Inl err' \<Rightarrow> Throw err'
             | Inr r \<Rightarrow>
                 if truthy (recordsUid r) \<and> \<not> recordsUsers r \<and> \<not> recordsSales r
                 then Return
                   \<lparr>success = False, userId = None,
                    error = Some ''This email already has an authentication account. Click Continue to create the necessary profiles.'',
                    existingUser =
                      Some \<lparr>auth = True, authUid = None, users = False, sales = False\<rparr>,
                    resultUid = recordsUid r\<rparr>
                 else Return
                   (failure ''This email is already registered. Please use a different email address.''))
          else Return (failure (if m = [] then ''Failed to create user account'' else m))
      | _ \<Rightarrow> Throw err)"

definition validation_createUser ::
  "validationEnv \<Rightarrow> string \<Rightarrow> world \<Rightarrow> string flow \<times> world" where
  "validation_createUser env e w =
     (case createUserAccount env e (authUid (details (checkExistingUser (finalCheck env)))) w of
        (Inr newUid, w') \<Rightarrow>
          (if newUid = [] then creationHandler env (Error ''Failed to get valid user ID'')
           else Continue newUid, w')
      | (Inl err, w') \<Rightarrow> (creationHandler env err, w'))"

definition validation_userDoc ::
  "strings \<Rightarrow> validationEnv \<Rightarrow> string \<Rightarrow> userData \<Rightarrow> document" where
  "validation_userDoc js env e userData =
     [(''email'', Str e),
      (''name'', Str (trim js (name userData))),
      (''role'', Str (role userData)),
      (''staffCode'',
         (case staffCode userData of None \<Rightarrow> Undefined | Some c \<Rightarrow> Str (trim js c))),
      (''storeIds'', (case storeIds userData of None \<Rightarrow> Undefined | Some l \<Rightarrow> StrList l)),
      (''primaryStoreId'',
         (case primaryStoreId userData of None \<Rightarrow> Undefined | Some p \<Rightarrow> Str p)),
      (''approved'', Bool True),
      (''createdAt'', IsoString (clock env)),
      (''lastLoginAt'', Null)]"

definition validation_salespersonDoc :: "strings \<Rightarrow> string \<Rightarrow> userData \<Rightarrow> document" where
  "validation_salespersonDoc js e userData =
     [(''email'', Str e),
      (''name'', Str (trim js (name userData))),
      (''role'', Str (role userData)),
      (''staffCode'',
         (case staffCode userData of None \<Rightarrow> Undefined | Some c \<Rightarrow> Str (trim js c))),
      (''storeIds'', (case storeIds userData of None \<Rightarrow> Undefined | Some l \<Rightarrow> StrList l)),
      (''primaryStoreId'',
         (case primaryStoreId userData of None \<Rightarrow> Undefined | Some p \<Rightarrow> Str p)),
      (''approved'', Bool True),
      (''createdAt'', serverTimestamp)]"

text \<open>
  Lines 457 to 496: the user profile is set, for the role \<open>team_member\<close> the
  salesperson profile is set, and the request is updated.
\<close>

definition validation_batch ::
  "strings \<Rightarrow> validationEnv \<Rightarrow> string \<Rightarrow> string \<Rightarrow> string \<Rightarrow> string \<Rightarrow> userData \<Rightarrow>
   exn + writeOp list" where
  "validation_batch js env requestId reviewerId e newUid userData =
     (case batchSet ''users'' newUid (validation_userDoc js env e userData) of
        Inl err \<Rightarrow> Inl err
      | Inr setUser \<Rightarrow>
          if role userData = ''team_member''
          then
            (case batchSet ''salespeople'' newUid (validation_salespersonDoc js e userData) of
               Inl err \<Rightarrow> Inl err
             | Inr setSalesperson \<Rightarrow>
                 Inr [setUser, setSalesperson,
                      UpdateDoc ''authRequests'' requestId (requestUpdate reviewerId)])
          else Inr [setUser, UpdateDoc ''authRequests'' requestId (requestUpdate reviewerId)])"

text \<open>The body of the outer \<^verbatim>\<open>try\<close>, lines 330 to 507.\<close>

definition validation_try ::
  "strings \<Rightarrow> validationEnv \<Rightarrow> string \<Rightarrow> string \<Rightarrow> userData \<Rightarrow> world \<Rightarrow>
   (exn + ApprovalResult) \<times> world" where
  "validation_try js env requestId reviewerId userData w =
     (if \<not> hasPermission env
      then (Inl (Error ''You do not have permission to approve requests''), w)
      else
        (case normalizedEmail js userData of
           None \<Rightarrow> (Inl (Error ''Email address is required''), w)
         | Some e \<Rightarrow>
             if e = [] then (Inl (Error ''Email address is required''), w)
             else if authCurrentUser env = None then (Inl (Error ''Not authenticated''), w)
             else
               (case existingUserGate env userData of
                  Some r \<Rightarrow> (Inr r, w)
                | None \<Rightarrow>
                    (case requestDoc env of
                       Inl err \<Rightarrow> (Inl err, w)
                     | Inr None \<Rightarrow> (Inl (Error ''Authentication request not found''), w)
                     | Inr (Some requestData) \<Rightarrow>
                         if alreadyProcessed requestData
                         then (Inl (Error ''This request has already been processed''), w)
                         else
                           (case finalGate env userData of
                              Some r \<Rightarrow> (Inr r, w)
                            | None \<Rightarrow>
                                (case validation_createUser env e w of
                                   (Throw err, w') \<Rightarrow> (Inl err, w')
                                 | (Return r, w') \<Rightarrow> (Inr r, w')
                                 | (Continue newUid, w') \<Rightarrow>
                                     (case validation_batch js env requestId reviewerId e
                                             newUid userData of
                                        Inl err \<Rightarrow> (Inl err, w')
                                      | Inr batch \<Rightarrow>
                                          (case commit (batchFault env) batch w' of
                                             (Inl err, w'') \<Rightarrow> (Inl err, w'')
                                           | (Inr u, w'') \<Rightarrow>
                                               (Inr \<lparr>success = True, userId = Some newUid,
                                                     error = None, existingUser = None,
                                                     resultUid = None\<rparr>, w'')))))))))"

definition validation_catch :: "exn \<Rightarrow> ApprovalResult" where
  "validation_catch err =
     (case err of
        FirebaseError c m \<Rightarrow>
          if c = ''auth/email-already-in-use''
          then failure ''This email is already registered with another account. Please use a different email address.''
          else if c = ''auth/invalid-email'' then failure ''Invalid email address format''
          else if c = ''permission-denied''
          then failure ''You do not have permission to approve requests''
          else failure (if m = [] then ''Failed to approve request'' else m)
      | _ \<Rightarrow>
          failure (if instanceofError err then message err else ''Failed to approve request''))"

definition validation_approveAuthRequest ::
  "strings \<Rightarrow> validationEnv \<Rightarrow> string \<Rightarrow> string \<Rightarrow> userData \<Rightarrow> world \<Rightarrow>
   ApprovalResult promise \<times> world" where
  "validation_approveAuthRequest js env requestId reviewerId userData w =
     (case validation_try js env requestId reviewerId userData w of
        (Inl err, w') \<Rightarrow> (Resolved (validation_catch err), w')
      | (Inr r, w') \<Rightarrow> (Resolved r, w'))"


section \<open>Example inputs\<close>

text \<open>
  The two string functions as they act on the texts of the examples, which consist of
  ASCII letters, digits, punctuation and spaces: capital letters are lowered and spaces
  are removed at both ends. A pending registration request, the data an administrator
  submits for it, a store that holds the request under the id \<open>r1\<close>, and an
  environment in which every check passes, the account is created with uid
  \<open>uid1\<close>, and the permission check of the commit fails on the first attempt only.
\<close>

definition asciiText :: strings where
  "asciiText =
     \<lparr>toLowerCase =
        map (\<lambda>c. case map_of (zip ''ABCDEFGHIJKLMNOPQRSTUVWXYZ''
                                    ''abcdefghijklmnopqrstuvwxyz'') c of
                   None \<Rightarrow> c
                 | Some l \<Rightarrow> l),
      trim =
        (\<lambda>s. rev (dropWhile (\<lambda>c. c = CHR '' '') (rev (dropWhile (\<lambda>c. c = CHR '' '') s))))\<rparr>"

definition pendingRequest :: document where
  "pendingRequest =
     [(''email'', Str ''new@x.com''), (''password'', Str ''secret''),
      (''status'', Str ''pending'')]"

definition teamMember :: userData where
  "teamMember =
     \<lparr>email = Some '' New@X.com '', name = ''New User'', role = ''team_member'',
      staffCode = Some ''S1'', storeIds = Some [''store1''], primaryStoreId = Some ''store1'',
      forceContinue = False\<rparr>"

definition storeWith :: "document \<Rightarrow> world" where
  "storeWith d = \<lparr>docs = [(''authRequests'', ''r1'') \<mapsto> d], accounts = [], commits = 0\<rparr>"

definition approvalRun :: approvalEnv where
  "approvalRun =
     \<lparr>networkOnline = True, signedIn = Some ''admin1'', loopPermission = (\<lambda>k. True),
      getRequestDoc = Inr (Some pendingRequest),
      createUserWithEmailAndPassword = Inr ''uid1'',
      getUserDocsByEmail = Inr [], fetchSignInMethodsForEmail = Inr [],
      commitPermission = (\<lambda>k. 2 \<le> k), commitFault = (\<lambda>k. None),
      retriable = (\<lambda>err. True), onlineAt = (\<lambda>k. True), dateNow = 0\<rparr>"


text \<open>
  Answers of one existence check: nothing exists; an account exists at the identity
  provider without any profile, with the uid that the records yield, if any; an account
  and both profiles exist. Then an environment of the workflow of validation.ts in which
  the caller may approve, both existence checks get the same answers, and the request is
  pending when it is loaded.
\<close>

definition nothingExists :: checkEnv where
  "nothingExists =
     \<lparr>signInMethods = Inr [],
      accountRecords = Inr \<lparr>recordsUid = None, recordsUsers = False, recordsSales = False\<rparr>,
      profileRecords = Inr \<lparr>recordsUid = None, recordsUsers = False, recordsSales = False\<rparr>\<rparr>"

definition accountOnly :: "string option \<Rightarrow> checkEnv" where
  "accountOnly found =
     \<lparr>signInMethods = Inr [''password''],
      accountRecords = Inr \<lparr>recordsUid = found, recordsUsers = False, recordsSales = False\<rparr>,
      profileRecords = Inr \<lparr>recordsUid = found, recordsUsers = False, recordsSales = False\<rparr>\<rparr>"

definition fullyProvisioned :: checkEnv where
  "fullyProvisioned =
     \<lparr>signInMethods = Inr [''password''],
      accountRecords =
        Inr \<lparr>recordsUid = Some ''uid9'', recordsUsers = True, recordsSales = True\<rparr>,
      profileRecords =
        Inr \<lparr>recordsUid = Some ''uid9'', recordsUsers = True, recordsSales = True\<rparr>\<rparr>"

definition emailInUse :: exn where
  "emailInUse =
     FirebaseError ''auth/email-already-in-use''
       ''The email address is already in use by another account.''"

definition validationRun :: "checkEnv \<Rightarrow> exn + string \<Rightarrow> validationEnv" where
  "validationRun answers created =
     \<lparr>hasPermission = True, authCurrentUser = Some ''admin1'', firstCheck = answers,
      requestDoc = Inr (Some pendingRequest), finalCheck = answers, createUser = created,
      lookupMethods = signInMethods answers, lookupRecords = profileRecords answers,
      handlerRecords = profileRecords answers, batchFault = None, clock = 0\<rparr>"

definition rejectedRequest :: document where
  "rejectedRequest =
     [(''email'', Str ''new@x.com''), (''password'', Str ''secret''),
      (''status'', Str ''rejected''), (''reviewedBy'', Str ''admin2''),
      (''reviewedAt'', serverTimestamp)]"


text \<open>A store in which both profile collections hold an earlier record for the email.\<close>

definition oldProfile :: document where
  "oldProfile =
     [(''email'', Str ''new@x.com''), (''name'', Str ''Earlier Name''),
      (''role'', Str ''regional'')]"

definition provisionedStore :: world where
  "provisionedStore =
     \<lparr>docs = [(''authRequests'', ''r1'') \<mapsto> pendingRequest,
              (''users'', ''uid9'') \<mapsto> oldProfile,
              (''salespeople'', ''uid9'') \<mapsto> oldProfile],
      accounts = [], commits = 0\<rparr>"


section \<open>Properties of the scheduler\<close>

lemma step_stopped: "stopped s \<Longrightarrow> step rrd e s = s"
  by (cases e) (auto simp: stopped_def clearTimeout_def split: option.splits)

lemma run_stopped: "stopped s \<Longrightarrow> run rrd es s = s"
  by (induction es) (simp_all add: step_stopped)

text \<open>
  C6. When the token result arrives after session start, the timer is armed with the delay
  \<open>max 0 (SESSION_TIMEOUT - REFRESH_THRESHOLD - tokenAge)\<close>, where
  \<open>tokenAge = now - issuedAt\<close>, \<open>SESSION_TIMEOUT\<close> is 55 minutes and
  \<open>REFRESH_THRESHOLD\<close> is 5 minutes, in milliseconds; the delay is not negative, and
  no other timer is armed.
\<close>

theorem setupSessionRefresh_delay:
  "timers (step rrd (TokenResult (Inr (Some issuedAt)) now) setupSessionRefresh) =
     [\<lparr>timerId = 1, callback = RefreshTimer,
       delay = max 0 (SESSION_TIMEOUT - REFRESH_THRESHOLD - (now - issuedAt))\<rparr>]
   \<and> timeoutId (step rrd (TokenResult (Inr (Some issuedAt)) now) setupSessionRefresh) = Some 1
   \<and> 0 \<le> max 0 (SESSION_TIMEOUT - REFRESH_THRESHOLD - (now - issuedAt))
   \<and> SESSION_TIMEOUT = 55 * 60 * 1000
   \<and> REFRESH_THRESHOLD = 5 * 60 * 1000"
  by (simp add: setupSessionRefresh_def scheduleNextCheck_def scheduleNextCheck_resume_def
      setTimeout_def SESSION_TIMEOUT_def REFRESH_THRESHOLD_def Let_def)

theorem setupSessionRefresh_delay_witness:
  "timers (step REFRESH_RETRY_DELAY (TokenResult (Inr (Some 1000)) 61000) setupSessionRefresh) =
     [\<lparr>timerId = 1, callback = RefreshTimer, delay = 2940000\<rparr>]"
  using setupSessionRefresh_delay [of REFRESH_RETRY_DELAY 1000 61000]
  by (simp add: SESSION_TIMEOUT_def REFRESH_THRESHOLD_def)

text \<open>
  After a successful refresh the callback notifies \<^verbatim>\<open>onRefresh\<close> and calls
  \<^verbatim>\<open>scheduleNextCheck\<close> again, which computes the next delay from the age of the new
  token; this does not depend on the retry delay.
\<close>

lemma refresh_success_rearms:
  assumes "awaitingRefresh s = Suc n"
  shows "onRefreshCalls (step rrd (RefreshSettles None) s) = Suc (onRefreshCalls s)"
    and "awaitingToken (step rrd (RefreshSettles None) s) = Suc (awaitingToken s)"
  using assms by (simp_all add: refreshTimer_resume_def scheduleNextCheck_def)

text \<open>
  Had \<^verbatim>\<open>REFRESH_RETRY_DELAY\<close> been bound to a delay \<open>d\<close>, a failed refresh would
  notify \<^verbatim>\<open>onError\<close> once and arm one more timer, with delay \<open>d\<close>, that calls
  \<^verbatim>\<open>scheduleNextCheck\<close>.
\<close>

lemma refresh_failure_rearms_if_bound:
  assumes "awaitingRefresh s = Suc n"
  shows "onErrorCalls (step (Some d) (RefreshSettles (Some e)) s) =
           onErrorCalls s @ [if instanceofError e then e else Error ''Session refresh failed'']"
    and "timers (step (Some d) (RefreshSettles (Some e)) s) =
           timers s @ [\<lparr>timerId = nextTimerId s, callback = RetryTimer, delay = d\<rparr>]"
  using assms by (simp_all add: refreshTimer_resume_def armRetry_def setTimeout_def)

text \<open>
  C7, evaluated on the code as written. The session starts, the token result arrives, the
  timer fires and \<^verbatim>\<open>refreshSession\<close> rejects. The \<^verbatim>\<open>catch\<close> block evaluates
  \<^verbatim>\<open>REFRESH_RETRY_DELAY\<close>, which is unbound, so it throws before
  \<^verbatim>\<open>onError\<close> is reached: the caller is not notified, no timer is armed, nothing is
  suspended, and no later event changes the scheduler.
\<close>

theorem refresh_failure_stops_scheduler:
  "onErrorCalls (run REFRESH_RETRY_DELAY
      [TokenResult (Inr (Some 0)) 0, TimerFires 1,
       RefreshSettles (Some (Error ''No network connection available''))]
      setupSessionRefresh) = []
   \<and> stopped (run REFRESH_RETRY_DELAY
      [TokenResult (Inr (Some 0)) 0, TimerFires 1,
       RefreshSettles (Some (Error ''No network connection available''))]
      setupSessionRefresh)
   \<and> unhandled (run REFRESH_RETRY_DELAY
      [TokenResult (Inr (Some 0)) 0, TimerFires 1,
       RefreshSettles (Some (Error ''No network connection available''))]
      setupSessionRefresh) = [ReferenceError ''REFRESH_RETRY_DELAY is not defined'']
   \<and> (\<forall>es. run REFRESH_RETRY_DELAY
      ([TokenResult (Inr (Some 0)) 0, TimerFires 1,
        RefreshSettles (Some (Error ''No network connection available''))] @ es)
      setupSessionRefresh =
      run REFRESH_RETRY_DELAY
      [TokenResult (Inr (Some 0)) 0, TimerFires 1,
       RefreshSettles (Some (Error ''No network connection available''))]
      setupSessionRefresh)"
proof -
  let ?s = "run REFRESH_RETRY_DELAY
      [TokenResult (Inr (Some 0)) 0, TimerFires 1,
       RefreshSettles (Some (Error ''No network connection available''))]
      setupSessionRefresh"
  have s: "?s = \<lparr>timers = [], nextTimerId = 2, timeoutId = Some 1, awaitingToken = 0,
        awaitingRefresh = 0, refreshCalls = 1, onRefreshCalls = 0, onErrorCalls = [],
        unhandled = [ReferenceError ''REFRESH_RETRY_DELAY is not defined'']\<rparr>"
    by (simp add: setupSessionRefresh_def scheduleNextCheck_def scheduleNextCheck_resume_def
        setTimeout_def clearTimeout_def refreshTimer_resume_def armRetry_def
        REFRESH_RETRY_DELAY_def SESSION_TIMEOUT_def REFRESH_THRESHOLD_def Let_def)
  have st: "stopped ?s" unfolding s by (simp add: stopped_def)
  have "run REFRESH_RETRY_DELAY
      ([TokenResult (Inr (Some 0)) 0, TimerFires 1,
        RefreshSettles (Some (Error ''No network connection available''))] @ es)
      setupSessionRefresh = ?s" for es
    using run_stopped [OF st, of REFRESH_RETRY_DELAY es] by simp
  with st show ?thesis unfolding s by simp
qed

text \<open>
  The claim C8 as stated fails: the disposer is invoked while \<^verbatim>\<open>scheduleNextCheck\<close>
  still waits for the token result, when \<^verbatim>\<open>timeoutId\<close> holds no handle. Nothing is
  cleared; the timer is armed afterwards, fires, and a refresh of the disposed session
  starts.
\<close>

theorem dispose_before_arming_counterexample:
  "refreshCalls (run REFRESH_RETRY_DELAY [Dispose] setupSessionRefresh) = 0
   \<and> refreshCalls (run REFRESH_RETRY_DELAY
        [Dispose, TokenResult (Inr (Some 0)) 0, TimerFires 1] setupSessionRefresh) = 1"
  by (simp add: setupSessionRefresh_def scheduleNextCheck_def scheduleNextCheck_resume_def
      setTimeout_def clearTimeout_def SESSION_TIMEOUT_def REFRESH_THRESHOLD_def Let_def)

text \<open>
  The same happens when the disposer is invoked while a refresh is in flight: the timer
  whose handle \<^verbatim>\<open>timeoutId\<close> holds has fired already, and the callback re-arms the
  cycle when the refresh resolves.
\<close>

lemma dispose_during_refresh_rearms:
  "refreshCalls (run REFRESH_RETRY_DELAY
        [TokenResult (Inr (Some 0)) 0, TimerFires 1, Dispose] setupSessionRefresh) = 1
   \<and> refreshCalls (run REFRESH_RETRY_DELAY
        [TokenResult (Inr (Some 0)) 0, TimerFires 1, Dispose, RefreshSettles None,
         TokenResult (Inr (Some 0)) 0, TimerFires 2] setupSessionRefresh) = 2"
  by (simp add: setupSessionRefresh_def scheduleNextCheck_def scheduleNextCheck_resume_def
      setTimeout_def clearTimeout_def refreshTimer_resume_def
      SESSION_TIMEOUT_def REFRESH_THRESHOLD_def Let_def)

text \<open>
  C8, amended. The disposer clears the timer whose handle \<^verbatim>\<open>timeoutId\<close> holds. When it
  is invoked while that timer is the only thing pending (the refresh timer is armed, no
  token query and no refresh is in flight), the scheduler is left with nothing armed and
  nothing suspended, and no sequence of later events starts another refresh.
\<close>

theorem dispose_while_scheduled:
  assumes "timers s = [t]" and "timeoutId s = Some (timerId t)" and "timerId t \<noteq> 0"
    and "awaitingToken s = 0" and "awaitingRefresh s = 0"
  shows "stopped (step rrd Dispose s)
    \<and> refreshCalls (run rrd (Dispose # es) s) = refreshCalls s
    \<and> onRefreshCalls (run rrd (Dispose # es) s) = onRefreshCalls s"
proof -
  have d: "step rrd Dispose s = s\<lparr>timers := []\<rparr>"
    using assms by (simp add: clearTimeout_def)
  have st: "stopped (step rrd Dispose s)"
    unfolding d using assms by (simp add: stopped_def)
  have "run rrd (Dispose # es) s = s\<lparr>timers := []\<rparr>"
    using run_stopped [OF st, of rrd es] d by simp
  with st show ?thesis by simp
qed

theorem dispose_while_scheduled_witness:
  "refreshCalls (run REFRESH_RETRY_DELAY
      [TokenResult (Inr (Some 0)) 0, Dispose, TimerFires 1, RefreshSettles None,
       TokenResult (Inr (Some 0)) 0]
      setupSessionRefresh) = 0"
proof -
  let ?s = "step REFRESH_RETRY_DELAY (TokenResult (Inr (Some 0)) 0) setupSessionRefresh"
  let ?t = "\<lparr>timerId = 1, callback = RefreshTimer, delay = 3000000\<rparr>"
  have s: "?s = \<lparr>timers = [?t], nextTimerId = 2, timeoutId = Some 1, awaitingToken = 0,
        awaitingRefresh = 0, refreshCalls = 0, onRefreshCalls = 0, onErrorCalls = [],
        unhandled = []\<rparr>"
    by (simp add: setupSessionRefresh_def scheduleNextCheck_def scheduleNextCheck_resume_def
        setTimeout_def SESSION_TIMEOUT_def REFRESH_THRESHOLD_def Let_def)
  let ?r = "\<lparr>timers = [?t], nextTimerId = 2, timeoutId = Some 1, awaitingToken = 0,
        awaitingRefresh = 0, refreshCalls = 0, onRefreshCalls = 0, onErrorCalls = [],
        unhandled = []\<rparr>"
  have "stopped (step REFRESH_RETRY_DELAY Dispose ?r)
    \<and> refreshCalls (run REFRESH_RETRY_DELAY
      (Dispose # [TimerFires 1, RefreshSettles None, TokenResult (Inr (Some 0)) 0]) ?r) =
      refreshCalls ?r
    \<and> onRefreshCalls (run REFRESH_RETRY_DELAY
      (Dispose # [TimerFires 1, RefreshSettles None, TokenResult (Inr (Some 0)) 0]) ?r) =
      onRefreshCalls ?r"
    by (rule dispose_while_scheduled [where t = ?t]) simp_all
  then have "refreshCalls (run REFRESH_RETRY_DELAY
      (Dispose # [TimerFires 1, RefreshSettles None, TokenResult (Inr (Some 0)) 0]) ?r) =
      refreshCalls ?r"
    by (elim conjE)
  then have "refreshCalls (run REFRESH_RETRY_DELAY
      (Dispose # [TimerFires 1, RefreshSettles None, TokenResult (Inr (Some 0)) 0]) ?s) = 0"
    unfolding s by simp
  then show ?thesis by simp
qed

section \<open>Properties of the admin permission resolver\<close>

text \<open>
  The claim C9 as stated fails, twice. First: the profile document cannot be read because
  the service is unavailable, which is not a permission-denied condition; the inner handler
  throws the error again, the outer handler catches it, and the function returns
  \<^verbatim>\<open>false\<close>. Second: the forced token refresh fails for the privileged user; no
  check runs, although each of them would grant the permission, and the function returns
  \<^verbatim>\<open>false\<close>.
\<close>

theorem verifyAdminPermissions_other_errors_counterexample:
  "verifyAdminPermissions
     \<lparr>currentUser = Some \<lparr>uid = ''u1'', userEmail = Some ''staff@example.com''\<rparr>,
      isOnline = True, refreshToken = None, hasNetwork = True,
      DEFAULT_ADMIN_EMAIL = ''root@example.com'', verifyAdmin = Inr False,
      getUserDoc = Inl (FirebaseError ''unavailable'' ''The service is currently unavailable'')\<rparr>
   = Inr False
   \<and> verifyAdminPermissions
     \<lparr>currentUser = Some \<lparr>uid = ''u0'', userEmail = Some ''root@example.com''\<rparr>,
      isOnline = True,
      refreshToken = Some (FirebaseError ''auth/network-request-failed'' ''Network error''),
      hasNetwork = True, DEFAULT_ADMIN_EMAIL = ''root@example.com'', verifyAdmin = Inr True,
      getUserDoc = Inr (Some \<lparr>docRole = Some ''admin'', docAdmin = Some True\<rparr>)\<rparr>
   = Inr False"
  by (simp add: verifyAdminPermissions_def verifyAdminPermissions_try_def
      firestoreFallback_def)

text \<open>
  C9, amended. \<^verbatim>\<open>verifyAdminPermissions\<close> never throws: it always returns a boolean.
  It returns \<^verbatim>\<open>true\<close> exactly when a user is signed in, the forced token refresh
  succeeded, the network is or becomes available, and one of the three checks grants the
  permission: the user's email is the privileged email, the remote verification answers
  \<^verbatim>\<open>isAdmin\<close>, or the profile document exists with role \<^verbatim>\<open>admin\<close> or with the
  admin flag set. In every other case it returns \<^verbatim>\<open>false\<close>; in particular every
  error, permission-denied or not, is degraded to \<^verbatim>\<open>false\<close>.
\<close>

theorem verifyAdminPermissions_characterised:
  "(\<exists>b. verifyAdminPermissions env = Inr b) \<and>
   (verifyAdminPermissions env = Inr True \<longleftrightarrow>
      (\<exists>user. currentUser env = Some user \<and> refreshToken env = None \<and>
         (isOnline env \<or> hasNetwork env) \<and>
         (userEmail user = Some (DEFAULT_ADMIN_EMAIL env) \<or> verifyAdmin env = Inr True \<or>
          (\<exists>d. getUserDoc env = Inr (Some d) \<and>
               (docRole d = Some ''admin'' \<or> docAdmin d = Some True)))))"
  by (auto simp: verifyAdminPermissions_def verifyAdminPermissions_try_def
      firestoreFallback_def split: option.splits sum.splits)

theorem verifyAdminPermissions_characterised_witness:
  "verifyAdminPermissions
     \<lparr>currentUser = Some \<lparr>uid = ''u1'', userEmail = Some ''staff@example.com''\<rparr>,
      isOnline = False, refreshToken = None, hasNetwork = True,
      DEFAULT_ADMIN_EMAIL = ''root@example.com'',
      verifyAdmin = Inl (FirebaseError ''internal'' ''internal''),
      getUserDoc = Inr (Some \<lparr>docRole = Some ''admin'', docAdmin = None\<rparr>)\<rparr>
   = Inr True"
  using verifyAdminPermissions_characterised
    [of "\<lparr>currentUser = Some \<lparr>uid = ''u1'', userEmail = Some ''staff@example.com''\<rparr>,
      isOnline = False, refreshToken = None, hasNetwork = True,
      DEFAULT_ADMIN_EMAIL = ''root@example.com'',
      verifyAdmin = Inl (FirebaseError ''internal'' ''internal''),
      getUserDoc = Inr (Some \<lparr>docRole = Some ''admin'', docAdmin = None\<rparr>)\<rparr>"]
  by simp


section \<open>Properties of the batched write and the retry engine\<close>

lemma attemptsOf_append: "attemptsOf (xs @ ys) = attemptsOf xs @ attemptsOf ys"
  by (induction xs rule: attemptsOf.induct) simp_all

lemma sleepsOf_append: "sleepsOf (xs @ ys) = sleepsOf xs @ sleepsOf ys"
  by (induction xs rule: sleepsOf.induct) simp_all

lemma commit_Inl: "commit fault batch w = (Inl e, w') \<Longrightarrow> w' = w"
  by (auto simp: commit_def split: option.splits)

lemma commit_Inr:
  "commit fault batch w = (Inr u, w') \<Longrightarrow>
     fault = None \<and> (\<exists>m. applyWrites batch (docs w) = Some m \<and>
        w' = w\<lparr>docs := m, commits := Suc (commits w)\<rparr>)"
  by (auto simp: commit_def split: option.splits)

lemma commitAttempt_Inl: "commitAttempt env batch k w = (Inl e, w') \<Longrightarrow> w' = w"
  by (auto simp: commitAttempt_def dest: commit_Inl split: if_splits)

lemma commitAttempt_Inr:
  "commitAttempt env batch k w = (Inr u, w') \<Longrightarrow>
     commitPermission env k \<and> commitFault env k = None \<and>
     (\<exists>m. applyWrites batch (docs w) = Some m \<and>
        w' = w\<lparr>docs := m, commits := Suc (commits w)\<rparr>)"
  by (auto simp: commitAttempt_def dest: commit_Inr split: if_splits)

lemma retryFrom_trace:
  "retryFrom R on opts operation a n s = (r, s', evs) \<Longrightarrow>
     \<exists>j\<le>n. attemptsOf evs = [a..<Suc (a + j)] \<and>
       sleepsOf evs =
         map (\<lambda>k. initialDelay opts * backoffMultiplier opts ^ (k - 1)) [a..<a + j]"
proof (induction n arbitrary: a s r s' evs)
  case 0
  then show ?case
    by (auto simp: attemptsOf_append sleepsOf_append split: prod.splits)
next
  case (Suc n)
  obtain r1 s1 where op: "operation a s = (r1, s1)" by (cases "operation a s")
  show ?case
  proof (cases r1)
    case (Inr v)
    with Suc.prems op have "attemptsOf evs = [a]" "sleepsOf evs = []"
      by (auto simp: attemptsOf_append sleepsOf_append)
    then show ?thesis by (intro exI [of _ 0]) simp
  next
    case (Inl e)
    show ?thesis
    proof (cases "R e")
      case False
      with Suc.prems op Inl have "attemptsOf evs = [a]" "sleepsOf evs = []"
        by (auto simp: attemptsOf_append sleepsOf_append)
      then show ?thesis by (intro exI [of _ 0]) simp
    next
      case True
      obtain r2 s2 evs2 where rec:
        "retryFrom R on opts operation (Suc a) n s1 = (r2, s2, evs2)"
        by (cases "retryFrom R on opts operation (Suc a) n s1") auto
      from Suc.IH [OF rec] obtain j where j: "j \<le> n"
        "attemptsOf evs2 = [Suc a..<Suc (Suc a + j)]"
        "sleepsOf evs2 =
           map (\<lambda>k. initialDelay opts * backoffMultiplier opts ^ (k - 1)) [Suc a..<Suc a + j]"
        by blast
      from Suc.prems op Inl True rec have evs:
        "attemptsOf evs = a # attemptsOf evs2"
        "sleepsOf evs = (initialDelay opts * backoffMultiplier opts ^ (a - 1)) # sleepsOf evs2"
        by (auto simp: attemptsOf_append sleepsOf_append)
      have u: "[a..<Suc (a + Suc j)] = a # [Suc a..<Suc (Suc a + j)]"
        "[a..<a + Suc j] = a # [Suc a..<Suc a + j]"
        by (simp_all add: upt_conv_Cons)
      have "attemptsOf evs = [a..<Suc (a + Suc j)]"
        unfolding u evs(1) j(2) by (rule refl)
      moreover have "sleepsOf evs =
          map (\<lambda>k. initialDelay opts * backoffMultiplier opts ^ (k - 1)) [a..<a + Suc j]"
        unfolding u evs(2) j(3) list.map by (rule refl)
      ultimately show ?thesis using j(1) by (intro exI [of _ "Suc j"]) simp
    qed
  qed
qed

lemma retryFrom_outcome:
  assumes unchanged: "\<And>k s e s'. operation k s = (Inl e, s') \<Longrightarrow> s' = s"
  shows "retryFrom R on opts operation a n s = (r, s', evs) \<Longrightarrow>
     (case r of
        Inl e \<Rightarrow> s' = s
      | Inr v \<Rightarrow> operation (last (attemptsOf evs)) s = (Inr v, s'))"
proof (induction n arbitrary: a s r s' evs)
  case 0
  then show ?case
    by (auto simp: attemptsOf_append split: prod.splits sum.splits dest: unchanged)
next
  case (Suc n)
  obtain r1 s1 where op: "operation a s = (r1, s1)" by (cases "operation a s")
  show ?case
  proof (cases r1)
    case (Inr v)
    with Suc.prems op show ?thesis by (auto simp: attemptsOf_append)
  next
    case (Inl e)
    with op have s1: "s1 = s" by (auto dest: unchanged)
    show ?thesis
    proof (cases "R e")
      case False
      with Suc.prems op Inl s1 show ?thesis by auto
    next
      case True
      obtain r2 s2 evs2 where rec:
        "retryFrom R on opts operation (Suc a) n s = (r2, s2, evs2)"
        by (cases "retryFrom R on opts operation (Suc a) n s") auto
      from retryFrom_trace [OF rec] have ne: "attemptsOf evs2 \<noteq> []" by auto
      from Suc.prems op Inl True rec s1 have evs:
        "r = r2" "s' = s2" "attemptsOf evs = a # attemptsOf evs2"
        by (auto simp: attemptsOf_append)
      from Suc.IH [OF rec] show ?thesis using evs ne by (auto split: sum.splits)
    qed
  qed
qed


lemma commitBatch_outcome:
  assumes "commitBatch env batch w = (r, w', evs)"
  shows "case r of
        Inl e \<Rightarrow> w' = w
      | Inr u \<Rightarrow>
          commitPermission env (last (attemptsOf evs)) \<and>
          commitFault env (last (attemptsOf evs)) = None \<and>
          (\<exists>m. applyWrites batch (docs w) = Some m \<and>
             w' = w\<lparr>docs := m, commits := Suc (commits w)\<rparr>)"
proof -
  have "case r of
        Inl e \<Rightarrow> w' = w
      | Inr u \<Rightarrow> commitAttempt env batch (last (attemptsOf evs)) w = (Inr u, w')"
    using assms unfolding commitBatch_def retry_def
    by (rule retryFrom_outcome [rotated]) (rule commitAttempt_Inl)
  then show ?thesis by (auto split: sum.splits dest: commitAttempt_Inr)
qed


lemma undefinedField_userProfileData:
  "(undefinedField (userProfileData js e userData) = None) = (primaryStoreId userData \<noteq> None)"
  by (auto simp: userProfileData_def split: option.splits)

lemma undefinedField_salespersonData:
  "(undefinedField (salespersonData js env e userData) = None) =
     (staffCode userData \<noteq> None \<and> storeIds userData \<noteq> None \<and>
      primaryStoreId userData \<noteq> None)"
  by (auto simp: salespersonData_def split: option.splits)

lemma undefinedField_validation_userDoc:
  "(undefinedField (validation_userDoc js env e userData) = None) =
     (staffCode userData \<noteq> None \<and> storeIds userData \<noteq> None \<and>
      primaryStoreId userData \<noteq> None)"
  by (auto simp: validation_userDoc_def split: option.splits)

lemma undefinedField_validation_salespersonDoc:
  "(undefinedField (validation_salespersonDoc js e userData) = None) =
     (staffCode userData \<noteq> None \<and> storeIds userData \<noteq> None \<and>
      primaryStoreId userData \<noteq> None)"
  by (auto simp: validation_salespersonDoc_def split: option.splits)

lemma batchSet_Inr:
  "batchSet c i d = Inr x \<Longrightarrow> undefinedField d = None \<and> x = SetDoc c i d"
  by (auto simp: batchSet_def split: option.splits)

lemma approval_batch_Inr:
  assumes "approval_batch js env requestId reviewerId e newUid userData = Inr batch"
  shows "role userData \<noteq> ''admin'' \<and> primaryStoreId userData \<noteq> None \<and>
     (role userData = ''team_member'' \<longrightarrow>
        staffCode userData \<noteq> None \<and> storeIds userData \<noteq> None) \<and>
     batch =
       [SetDoc ''users'' newUid (userProfileData js e userData)] @
       (if role userData = ''team_member''
        then [SetDoc ''salespeople'' newUid (salespersonData js env e userData)] else []) @
       [UpdateDoc ''authRequests'' requestId (requestUpdate reviewerId)]"
  using assms undefinedField_userProfileData [of js e userData]
    undefinedField_salespersonData [of js env e userData]
  by (auto simp: approval_batch_def split: sum.splits if_splits dest!: batchSet_Inr)

lemma validation_batch_Inr:
  assumes "validation_batch js env requestId reviewerId e newUid userData = Inr batch"
  shows "staffCode userData \<noteq> None \<and> storeIds userData \<noteq> None \<and>
     primaryStoreId userData \<noteq> None \<and>
     batch =
       [SetDoc ''users'' newUid (validation_userDoc js env e userData)] @
       (if role userData = ''team_member''
        then [SetDoc ''salespeople'' newUid (validation_salespersonDoc js e userData)] else []) @
       [UpdateDoc ''authRequests'' requestId (requestUpdate reviewerId)]"
  using assms undefinedField_validation_userDoc [of js env e userData]
  by (auto simp: validation_batch_def split: sum.splits if_splits dest!: batchSet_Inr)

lemma applyWrites_profiles:
  assumes "applyWrites
       ([SetDoc ''users'' newUid userDoc] @
        (if isTeamMember then [SetDoc ''salespeople'' newUid salesDoc] else []) @
        [UpdateDoc ''authRequests'' requestId upd]) m0 = Some m"
  shows "m (''users'', newUid) = Some userDoc \<and>
     m (''salespeople'', newUid) =
       (if isTeamMember then Some salesDoc else m0 (''salespeople'', newUid)) \<and>
     (\<exists>stored. m0 (''authRequests'', requestId) = Some stored \<and>
        m (''authRequests'', requestId) = Some (mergeFields upd stored))"
  using assms by (auto split: if_splits option.splits)

lemma applyWrites_profiles_defined:
  assumes "m0 (''authRequests'', requestId) = Some stored"
  shows "\<exists>m. applyWrites
       ([SetDoc ''users'' newUid userDoc] @
        (if isTeamMember then [SetDoc ''salespeople'' newUid salesDoc] else []) @
        [UpdateDoc ''authRequests'' requestId upd]) m0 = Some m"
  using assms by (cases isTeamMember) simp_all

lemma failure_simps [simp]:
  "success (failure m) = False" "error (failure m) = Some m" "userId (failure m) = None"
  "existingUser (failure m) = None"
  by (simp_all add: failure_def)

lemma approval_catch_result [simp]:
  "success (approval_catch err) = False" "error (approval_catch err) \<noteq> None"
  "\<exists>m. error (approval_catch err) = Some m"
  by (simp_all add: approval_catch_def split: exn.splits)

lemma validation_catch_result [simp]:
  "success (validation_catch err) = False" "error (validation_catch err) \<noteq> None"
  "\<exists>m. error (validation_catch err) = Some m"
  by (simp_all add: validation_catch_def split: exn.splits)

lemma approval_createUser_cases:
  assumes "approval_createUser env e w = (f, w')"
  shows "docs w' = docs w \<and> commits w' = commits w"
    and "\<And>newUid. f = Continue newUid \<Longrightarrow>
           createUserWithEmailAndPassword env = Inr newUid \<and> newUid \<noteq> []"
    and "\<And>r. f = Return r \<Longrightarrow> \<not> success r \<and> w' = w"
    and "\<And>err. createUserWithEmailAndPassword env = Inl err \<Longrightarrow> w' = w"
  using assms
  by (auto simp: approval_createUser_def split: sum.splits if_splits)

lemmas approval_defs =
  approveAuthRequest_def approveAuthRequest_try_def approval_checks_def
  approval_createUser_def approval_batch_def alreadyProcessed_def commitBatch_def retry_def
  commitOptions_def commitAttempt_def commit_def normalizedEmail_def asciiText_def
  batchSet_def invalidData_def userProfileData_def salespersonData_def requestUpdate_def

lemma approvalRun_eval:
  "approveAuthRequest asciiText approvalRun ''r1'' ''admin1'' teamMember
     (storeWith pendingRequest) =
     (Resolved \<lparr>success = True, userId = Some ''uid1'', error = None, existingUser = None,
        resultUid = None\<rparr>,
      \<lparr>docs = [(''authRequests'', ''r1'') \<mapsto>
                 [(''email'', Str ''new@x.com''), (''password'', Str ''secret''),
                  (''status'', Str ''approved''), (''reviewedBy'', Str ''admin1''),
                  (''reviewedAt'', serverTimestamp)],
               (''users'', ''uid1'') \<mapsto>
                 [(''email'', Str ''new@x.com''), (''name'', Str ''New User''),
                  (''role'', Str ''team_member''), (''admin'', Bool False),
                  (''approved'', Bool True), (''staffCode'', Str ''S1''),
                  (''storeIds'', StrList [''store1'']), (''primaryStoreId'', Str ''store1''),
                  (''createdAt'', serverTimestamp), (''lastLoginAt'', Null),
                  (''updatedAt'', serverTimestamp)],
               (''salespeople'', ''uid1'') \<mapsto>
                 [(''email'', Str ''new@x.com''), (''name'', Str ''New User''),
                  (''role'', Str ''team_member''), (''staffCode'', Str ''S1''),
                  (''storeIds'', StrList [''store1'']), (''primaryStoreId'', Str ''store1''),
                  (''approved'', Bool True), (''createdAt'', IsoString 0),
                  (''updatedAt'', serverTimestamp)]],
       accounts = [(''new@x.com'', ''uid1'')], commits = 1\<rparr>)"
  by (simp add: approval_defs approvalRun_def teamMember_def storeWith_def pendingRequest_def
      numeral_eq_Suc fun_upd_twist)

lemma approvalRun_missing_field_eval:
  "approveAuthRequest asciiText approvalRun ''r1'' ''admin1''
     (teamMember\<lparr>primaryStoreId := None\<rparr>) (storeWith pendingRequest) =
     (Resolved
        (failure
           (''Function WriteBatch.set() called with invalid data. Unsupported field value: '' @
            ''undefined (found in field primaryStoreId in document users/uid1)'')),
      \<lparr>docs = [(''authRequests'', ''r1'') \<mapsto> pendingRequest],
       accounts = [(''new@x.com'', ''uid1'')], commits = 0\<rparr>)"
  by (simp add: approval_defs approval_catch_def approvalRun_def teamMember_def storeWith_def
      pendingRequest_def numeral_eq_Suc)

text \<open>
  C4. Whatever the environment answers, the call resolves, and there are two outcomes. If
  the result is a success, the account was created, the role is not \<open>admin\<close>, no
  field of a profile was \<^verbatim>\<open>undefined\<close>, and one batch was applied to the store as
  a whole: the user profile under the new uid, the salesperson profile under the same uid
  exactly when the role is \<open>team_member\<close>, and the update of the stored request to
  \<open>approved\<close> with the reviewer and the review time; the store has applied exactly
  one batch more than before. Otherwise no document has changed and no batch was applied,
  also when the failure comes after the account was created. When the creation of the
  account fails, nothing at all has changed, so the request keeps its status.
\<close>

theorem approval_commit_atomic:
  assumes "approveAuthRequest js env requestId reviewerId userData w = (p, w')"
  shows "\<exists>r. p = Resolved r \<and>
     (if success r
      then (\<exists>e newUid m.
              normalizedEmail js userData = Some e \<and>
              createUserWithEmailAndPassword env = Inr newUid \<and> userId r = Some newUid \<and>
              role userData \<noteq> ''admin'' \<and> primaryStoreId userData \<noteq> None \<and>
              (role userData = ''team_member'' \<longrightarrow>
                 staffCode userData \<noteq> None \<and> storeIds userData \<noteq> None) \<and>
              applyWrites
                ([SetDoc ''users'' newUid (userProfileData js e userData)] @
                 (if role userData = ''team_member''
                  then [SetDoc ''salespeople'' newUid (salespersonData js env e userData)]
                  else []) @
                 [UpdateDoc ''authRequests'' requestId (requestUpdate reviewerId)])
                (docs w) = Some m \<and>
              docs w' = m \<and> commits w' = Suc (commits w) \<and>
              docs w' (''users'', newUid) = Some (userProfileData js e userData) \<and>
              docs w' (''salespeople'', newUid) =
                (if role userData = ''team_member''
                 then Some (salespersonData js env e userData)
                 else docs w (''salespeople'', newUid)) \<and>
              (\<exists>stored. docs w (''authRequests'', requestId) = Some stored \<and>
                 docs w' (''authRequests'', requestId) =
                   Some (mergeFields (requestUpdate reviewerId) stored)))
      else docs w' = docs w \<and> commits w' = commits w)
     \<and> (\<forall>err. createUserWithEmailAndPassword env = Inl err \<longrightarrow> w' = w)"
proof (cases "approval_checks js env userData")
  case (Inl err)
  with assms have "p = Resolved (approval_catch err)" "w' = w"
    by (auto simp: approveAuthRequest_def approveAuthRequest_try_def)
  then show ?thesis by simp
next
  case (Inr checked)
  obtain e requestData where checked: "checked = (e, requestData)" by (cases checked)
  from Inr checked have ne: "normalizedEmail js userData = Some e"
    by (auto simp: approval_checks_def split: if_splits option.splits sum.splits)
  obtain f w1 where cu: "approval_createUser env e w = (f, w1)"
    by (cases "approval_createUser env e w")
  note cuf = approval_createUser_cases [OF cu]
  show ?thesis
  proof (cases f)
    case (Throw err)
    with assms Inr checked cu have "p = Resolved (approval_catch err)" "w' = w1"
      by (auto simp: approveAuthRequest_def approveAuthRequest_try_def)
    with cuf(1,4) show ?thesis by simp
  next
    case (Return r)
    with assms Inr checked cu have "p = Resolved r" "w' = w1"
      by (auto simp: approveAuthRequest_def approveAuthRequest_try_def)
    with cuf(1,4) cuf(3) [OF Return] show ?thesis by simp
  next
    case (Continue newUid)
    from cuf(2) [OF Continue] have created: "createUserWithEmailAndPassword env = Inr newUid"
      by simp
    show ?thesis
    proof (cases "approval_batch js env requestId reviewerId e newUid userData")
      case (Inl err)
      with assms Inr checked cu Continue have "p = Resolved (approval_catch err)" "w' = w1"
        by (auto simp: approveAuthRequest_def approveAuthRequest_try_def)
      with cuf(1) created show ?thesis by simp
    next
      case batch: (Inr batch)
      note b = approval_batch_Inr [OF batch]
      obtain r2 w2 evs where cb: "commitBatch env batch w1 = (r2, w2, evs)"
        by (cases "commitBatch env batch w1") auto
      note out = commitBatch_outcome [OF cb]
      show ?thesis
      proof (cases r2)
        case (Inl err)
        with out have "w2 = w1" by simp
        moreover from assms Inr checked cu Continue batch cb Inl
        have "p = Resolved (approval_catch err)" "w' = w2"
          by (auto simp: approveAuthRequest_def approveAuthRequest_try_def)
        ultimately show ?thesis using cuf(1) created by simp
      next
        case (Inr u)
        with out obtain m where m: "applyWrites batch (docs w1) = Some m"
          "w2 = w1\<lparr>docs := m, commits := Suc (commits w1)\<rparr>"
          by auto
        from assms \<open>approval_checks js env userData = Inr checked\<close> checked cu Continue batch
          cb Inr
        have res: "p = Resolved \<lparr>success = True, userId = Some newUid, error = None,
              existingUser = None, resultUid = None\<rparr>" "w' = w2"
          by (auto simp: approveAuthRequest_def approveAuthRequest_try_def)
        from m cuf(1) have aw: "applyWrites batch (docs w) = Some m" and dm: "docs w' = m"
          and cm: "commits w' = Suc (commits w)"
          using res(2) by simp_all
        from b have beq: "batch =
            [SetDoc ''users'' newUid (userProfileData js e userData)] @
            (if role userData = ''team_member''
             then [SetDoc ''salespeople'' newUid (salespersonData js env e userData)] else []) @
            [UpdateDoc ''authRequests'' requestId (requestUpdate reviewerId)]"
          by simp
        note prof = applyWrites_profiles [OF aw [unfolded beq]]
        have "\<exists>e newUid m.
              normalizedEmail js userData = Some e \<and>
              createUserWithEmailAndPassword env = Inr newUid \<and> Some newUid = Some newUid \<and>
              role userData \<noteq> ''admin'' \<and> primaryStoreId userData \<noteq> None \<and>
              (role userData = ''team_member'' \<longrightarrow>
                 staffCode userData \<noteq> None \<and> storeIds userData \<noteq> None) \<and>
              applyWrites
                ([SetDoc ''users'' newUid (userProfileData js e userData)] @
                 (if role userData = ''team_member''
                  then [SetDoc ''salespeople'' newUid (salespersonData js env e userData)]
                  else []) @
                 [UpdateDoc ''authRequests'' requestId (requestUpdate reviewerId)])
                (docs w) = Some m \<and>
              docs w' = m \<and> commits w' = Suc (commits w) \<and>
              docs w' (''users'', newUid) = Some (userProfileData js e userData) \<and>
              docs w' (''salespeople'', newUid) =
                (if role userData = ''team_member''
                 then Some (salespersonData js env e userData)
                 else docs w (''salespeople'', newUid)) \<and>
              (\<exists>stored. docs w (''authRequests'', requestId) = Some stored \<and>
                 docs w' (''authRequests'', requestId) =
                   Some (mergeFields (requestUpdate reviewerId) stored))"
          apply (rule exI [of _ e], rule exI [of _ newUid], rule exI [of _ m])
          using ne created b aw [unfolded beq] dm cm prof unfolding dm by blast
        with res(1) created show ?thesis by simp
      qed
    qed
  qed
qed

theorem approval_commit_atomic_witness:
  "approveAuthRequest asciiText approvalRun ''r1'' ''admin1'' teamMember
     (storeWith pendingRequest) =
     (Resolved \<lparr>success = True, userId = Some ''uid1'', error = None, existingUser = None,
        resultUid = None\<rparr>,
      \<lparr>docs = [(''authRequests'', ''r1'') \<mapsto>
                 [(''email'', Str ''new@x.com''), (''password'', Str ''secret''),
                  (''status'', Str ''approved''), (''reviewedBy'', Str ''admin1''),
                  (''reviewedAt'', serverTimestamp)],
               (''users'', ''uid1'') \<mapsto>
                 [(''email'', Str ''new@x.com''), (''name'', Str ''New User''),
                  (''role'', Str ''team_member''), (''admin'', Bool False),
                  (''approved'', Bool True), (''staffCode'', Str ''S1''),
                  (''storeIds'', StrList [''store1'']), (''primaryStoreId'', Str ''store1''),
                  (''createdAt'', serverTimestamp), (''lastLoginAt'', Null),
                  (''updatedAt'', serverTimestamp)],
               (''salespeople'', ''uid1'') \<mapsto>
                 [(''email'', Str ''new@x.com''), (''name'', Str ''New User''),
                  (''role'', Str ''team_member''), (''staffCode'', Str ''S1''),
                  (''storeIds'', StrList [''store1'']), (''primaryStoreId'', Str ''store1''),
                  (''approved'', Bool True), (''createdAt'', IsoString 0),
                  (''updatedAt'', serverTimestamp)]],
       accounts = [(''new@x.com'', ''uid1'')], commits = 1\<rparr>)
   \<and> approveAuthRequest asciiText approvalRun ''r1'' ''admin1''
       (teamMember\<lparr>primaryStoreId := None\<rparr>) (storeWith pendingRequest) =
     (Resolved
        (failure
           (''Function WriteBatch.set() called with invalid data. Unsupported field value: '' @
            ''undefined (found in field primaryStoreId in document users/uid1)'')),
      \<lparr>docs = [(''authRequests'', ''r1'') \<mapsto> pendingRequest],
       accounts = [(''new@x.com'', ''uid1'')], commits = 0\<rparr>)"
  using approval_commit_atomic [OF approvalRun_eval]
    approval_commit_atomic [OF approvalRun_missing_field_eval]
  by (simp (no_asm) add: approvalRun_eval approvalRun_missing_field_eval)





section \<open>Properties of the approval workflows\<close>

lemmas validation_defs =
  validation_approveAuthRequest_def validation_try_def existingUserGate_def finalGate_def
  checkExistingUser_def checkAuthAccount_def checkAuthAccount_try_def
  getExistingUserError_def validation_createUser_def createUserAccount_def
  creationHandler_def validation_batch_def alreadyProcessed_def commit_def
  normalizedEmail_def asciiText_def batchSet_def invalidData_def validation_userDoc_def
  validation_salespersonDoc_def requestUpdate_def

lemma truthy_Some: "truthy x = (\<exists>s. x = Some s \<and> s \<noteq> [])"
  by (cases x) auto

lemma approval_checks_processed:
  assumes "getRequestDoc env = Inr (Some requestData)" and "alreadyProcessed requestData"
  shows "\<exists>err. approval_checks js env userData = Inl err"
    and "networkOnline env \<Longrightarrow> signedIn env \<noteq> None \<Longrightarrow>
         permissionLoop (loopPermission env) 0 3 \<Longrightarrow> truthy (normalizedEmail js userData) \<Longrightarrow>
         approval_checks js env userData =
           Inl (FirebaseError ''failed-precondition'' ''This request has already been processed'')"
  using assms by (auto simp: approval_checks_def truthy_Some split: option.splits)

lemma approval_createUser_Return:
  "approval_createUser env e w = (Return r, w') \<Longrightarrow>
     \<not> success r \<and>
     (error r \<noteq> None \<or>
      existingUser r = Some \<lparr>auth = True, authUid = None, users = False, sales = False\<rparr>)"
  by (auto simp: approval_createUser_def split: sum.splits if_splits)

lemma existingUserGate_Some:
  "existingUserGate venv userData = Some r \<Longrightarrow> \<not> success r \<and> error r \<noteq> None"
  by (auto simp: existingUserGate_def split: if_splits option.splits)

lemma finalGate_Some:
  "finalGate venv userData = Some r \<Longrightarrow> \<not> success r \<and> error r \<noteq> None"
  by (auto simp: finalGate_def Let_def split: if_splits)

lemma creationHandler_Return:
  "creationHandler venv err = Return r \<Longrightarrow> \<not> success r \<and> error r \<noteq> None"
  by (auto simp: creationHandler_def split: exn.splits sum.splits if_splits)

lemma validation_createUser_Return:
  "validation_createUser venv e w = (Return r, w') \<Longrightarrow> \<not> success r \<and> error r \<noteq> None"
  by (auto simp: validation_createUser_def split: prod.splits sum.splits if_splits
      dest: creationHandler_Return)

lemma approveAuthRequest_try_Inr:
  assumes "approveAuthRequest_try js env requestId reviewerId userData w = (Inr r, w')"
  shows "success r \<or> error r \<noteq> None \<or>
      existingUser r = Some \<lparr>auth = True, authUid = None, users = False, sales = False\<rparr>"
  using assms
  by (auto simp: approveAuthRequest_try_def
      split: sum.splits prod.splits flow.splits dest: approval_createUser_Return)

lemma validation_try_Inr:
  assumes "validation_try js venv requestId reviewerId userData w = (Inr r, w')"
  shows "success r \<or> error r \<noteq> None"
  using assms
  by (auto simp: validation_try_def
      split: option.splits sum.splits prod.splits flow.splits if_splits
      dest: existingUserGate_Some finalGate_Some validation_createUser_Return)

text \<open>
  The claim C1 as stated fails: the status is not checked again before the commit. The
  request is pending when the workflow loads it; by the time the batch is committed another
  administrator has rejected it, and the store holds it with status \<open>rejected\<close>. The
  workflow, in approval.ts and in validation.ts alike, commits its batch, reports success,
  and the request ends with status \<open>approved\<close>.
\<close>

theorem status_not_rechecked_counterexample:
  "getRequestDoc approvalRun = Inr (Some pendingRequest)
   \<and> \<not> alreadyProcessed pendingRequest
   \<and> docs (storeWith rejectedRequest) (''authRequests'', ''r1'') = Some rejectedRequest
   \<and> alreadyProcessed rejectedRequest
   \<and> fst (approveAuthRequest asciiText approvalRun ''r1'' ''admin1'' teamMember (storeWith rejectedRequest)) =
       Resolved \<lparr>success = True, userId = Some ''uid1'', error = None, existingUser = None,
                 resultUid = None\<rparr>
   \<and> docs (snd (approveAuthRequest asciiText approvalRun ''r1'' ''admin1'' teamMember
                   (storeWith rejectedRequest))) (''authRequests'', ''r1'') =
       Some [(''email'', Str ''new@x.com''), (''password'', Str ''secret''),
             (''status'', Str ''approved''), (''reviewedBy'', Str ''admin1''),
             (''reviewedAt'', serverTimestamp)]
   \<and> fst (validation_approveAuthRequest asciiText (validationRun nothingExists (Inr ''uid1'')) ''r1''
             ''admin1'' teamMember (storeWith rejectedRequest)) =
       Resolved \<lparr>success = True, userId = Some ''uid1'', error = None, existingUser = None,
                 resultUid = None\<rparr>
   \<and> docs (snd (validation_approveAuthRequest asciiText (validationRun nothingExists (Inr ''uid1''))
                   ''r1'' ''admin1'' teamMember (storeWith rejectedRequest)))
         (''authRequests'', ''r1'') =
       Some [(''email'', Str ''new@x.com''), (''password'', Str ''secret''),
             (''status'', Str ''approved''), (''reviewedBy'', Str ''admin1''),
             (''reviewedAt'', serverTimestamp)]"
  by (simp add: approval_defs validation_defs approvalRun_def validationRun_def
      nothingExists_def teamMember_def storeWith_def pendingRequest_def rejectedRequest_def
      numeral_eq_Suc)

text \<open>
  C1, amended. When the request document that the workflow loads has status
  \<open>approved\<close> or \<open>rejected\<close>, the call resolves to an unsuccessful result and
  changes nothing: no document, no account, no batch. When moreover the steps before the
  load let the call through (in approval.ts: online, signed in, permission granted, an
  email given; in validation.ts: permission granted, an email given, signed in, and no
  result from the existence gate), the result carries the message that the request has
  already been processed. The status is tested once, on the loaded document.
\<close>

theorem processed_request_refused:
  "(getRequestDoc env = Inr (Some requestData) \<and> alreadyProcessed requestData \<longrightarrow>
      snd (approveAuthRequest js env requestId reviewerId userData w) = w \<and>
      (\<exists>r. fst (approveAuthRequest js env requestId reviewerId userData w) = Resolved r \<and>
           \<not> success r) \<and>
      (networkOnline env \<and> signedIn env \<noteq> None \<and> permissionLoop (loopPermission env) 0 3 \<and>
       truthy (normalizedEmail js userData) \<longrightarrow>
         fst (approveAuthRequest js env requestId reviewerId userData w) =
           Resolved (failure ''This request has already been processed'')))
   \<and> (requestDoc venv = Inr (Some requestData) \<and> alreadyProcessed requestData \<longrightarrow>
      snd (validation_approveAuthRequest js venv requestId reviewerId userData w) = w \<and>
      (\<exists>r. fst (validation_approveAuthRequest js venv requestId reviewerId userData w) =
             Resolved r \<and> \<not> success r) \<and>
      (hasPermission venv \<and> truthy (normalizedEmail js userData) \<and>
       authCurrentUser venv \<noteq> None \<and> existingUserGate venv userData = None \<longrightarrow>
         fst (validation_approveAuthRequest js venv requestId reviewerId userData w) =
           Resolved (failure ''This request has already been processed'')))"
proof (intro conjI impI; (elim conjE)?)
  assume a: "getRequestDoc env = Inr (Some requestData)" "alreadyProcessed requestData"
  from approval_checks_processed(1) [OF a] obtain err
    where err: "approval_checks js env userData = Inl err" by blast
  then have run: "approveAuthRequest js env requestId reviewerId userData w =
      (Resolved (approval_catch err), w)"
    by (simp add: approveAuthRequest_def approveAuthRequest_try_def)
  show "snd (approveAuthRequest js env requestId reviewerId userData w) = w"
    by (simp add: run)
  show "\<exists>r. fst (approveAuthRequest js env requestId reviewerId userData w) = Resolved r \<and>
           \<not> success r"
    by (simp add: run)
  assume "networkOnline env" "signedIn env \<noteq> None" "permissionLoop (loopPermission env) 0 3"
    "truthy (normalizedEmail js userData)"
  from approval_checks_processed(2) [OF a this] err
  have "err = FirebaseError ''failed-precondition'' ''This request has already been processed''"
    by simp
  then show "fst (approveAuthRequest js env requestId reviewerId userData w) =
           Resolved (failure ''This request has already been processed'')"
    by (simp add: run approval_catch_def)
next
  assume a: "requestDoc venv = Inr (Some requestData)" "alreadyProcessed requestData"
  have gate: "\<not> success r" if "existingUserGate venv userData = Some r" for r
    using that by (auto simp: existingUserGate_def split: if_splits option.splits)
  from a have "snd (validation_try js venv requestId reviewerId userData w) = w \<and>
      (case fst (validation_try js venv requestId reviewerId userData w) of
         Inl err \<Rightarrow> True | Inr r \<Rightarrow> \<not> success r)"
    by (auto simp: validation_try_def split: option.splits dest: gate)
  then show "snd (validation_approveAuthRequest js venv requestId reviewerId userData w) = w"
    and "\<exists>r. fst (validation_approveAuthRequest js venv requestId reviewerId userData w) =
             Resolved r \<and> \<not> success r"
    by (auto simp: validation_approveAuthRequest_def split: prod.splits sum.splits)
  assume "hasPermission venv" "truthy (normalizedEmail js userData)"
    "authCurrentUser venv \<noteq> None" "existingUserGate venv userData = None"
  with a show "fst (validation_approveAuthRequest js venv requestId reviewerId userData w) =
           Resolved (failure ''This request has already been processed'')"
    by (auto simp: validation_approveAuthRequest_def validation_try_def validation_catch_def
        truthy_Some split: option.splits)
qed

theorem processed_request_refused_witness:
  "approveAuthRequest asciiText (approvalRun\<lparr>getRequestDoc := Inr (Some rejectedRequest)\<rparr>) ''r1''
     ''admin1'' teamMember (storeWith rejectedRequest) =
     (Resolved (failure ''This request has already been processed''), storeWith rejectedRequest)
   \<and> validation_approveAuthRequest asciiText
       ((validationRun nothingExists (Inr ''uid1''))\<lparr>requestDoc := Inr (Some rejectedRequest)\<rparr>)
       ''r1'' ''admin1'' teamMember (storeWith rejectedRequest) =
     (Resolved (failure ''This request has already been processed''), storeWith rejectedRequest)"
  using processed_request_refused
    [where js = asciiText
       and env = "approvalRun\<lparr>getRequestDoc := Inr (Some rejectedRequest)\<rparr>"
       and venv = "(validationRun nothingExists (Inr ''uid1''))
                     \<lparr>requestDoc := Inr (Some rejectedRequest)\<rparr>"
       and requestData = rejectedRequest and requestId = "''r1''" and reviewerId = "''admin1''"
       and userData = teamMember and w = "storeWith rejectedRequest"]
  by (simp add: approval_defs validation_defs approvalRun_def validationRun_def
      nothingExists_def teamMember_def rejectedRequest_def numeral_eq_Suc prod_eq_iff)

text \<open>
  The claim C10 as stated fails for one outcome of approval.ts: the identity provider
  reports the email as already in use, no user profile has this email, and the provider
  lists a sign-in method. The call resolves to an unsuccessful result that carries the
  details of the existing user and no error message.
\<close>

theorem approval_result_without_message_counterexample:
  "fst (approveAuthRequest asciiText
          (approvalRun\<lparr>createUserWithEmailAndPassword := Inl emailInUse,
                        fetchSignInMethodsForEmail := Inr [''password'']\<rparr>)
          ''r1'' ''admin1'' teamMember (storeWith pendingRequest)) =
     Resolved \<lparr>success = False, userId = None, error = None,
        existingUser = Some \<lparr>auth = True, authUid = None, users = False, sales = False\<rparr>,
        resultUid = None\<rparr>"
  by (simp add: approval_defs approvalRun_def emailInUse_def teamMember_def storeWith_def
      pendingRequest_def numeral_eq_Suc)

text \<open>
  C10, amended. Both workflows always resolve and never reject. Every value thrown inside
  the outer \<^verbatim>\<open>try\<close> becomes the result that the outer handler builds from it, which
  is unsuccessful and carries an error message. Every result of validation.ts is a success
  or carries an error message; every result of approval.ts is a success, carries an error
  message, or is the return for an account that exists without a user profile, which
  carries the details of the existing user instead.
\<close>

theorem approveAuthRequest_always_resolves:
  "(\<exists>r. fst (approveAuthRequest js env requestId reviewerId userData w) = Resolved r \<and>
        (success r \<or> error r \<noteq> None \<or>
         existingUser r =
           Some \<lparr>auth = True, authUid = None, users = False, sales = False\<rparr>))
   \<and> (\<forall>err w1. approveAuthRequest_try js env requestId reviewerId userData w = (Inl err, w1) \<longrightarrow>
          approveAuthRequest js env requestId reviewerId userData w =
            (Resolved (approval_catch err), w1) \<and>
          \<not> success (approval_catch err) \<and> error (approval_catch err) \<noteq> None)
   \<and> (\<exists>r. fst (validation_approveAuthRequest js venv requestId reviewerId userData w) =
            Resolved r \<and> (success r \<or> error r \<noteq> None))
   \<and> (\<forall>err w1. validation_try js venv requestId reviewerId userData w = (Inl err, w1) \<longrightarrow>
          validation_approveAuthRequest js venv requestId reviewerId userData w =
            (Resolved (validation_catch err), w1) \<and>
          \<not> success (validation_catch err) \<and> error (validation_catch err) \<noteq> None)"
proof (intro conjI allI impI)
  obtain x w1 where t: "approveAuthRequest_try js env requestId reviewerId userData w = (x, w1)"
    by (cases "approveAuthRequest_try js env requestId reviewerId userData w")
  show "\<exists>r. fst (approveAuthRequest js env requestId reviewerId userData w) = Resolved r \<and>
        (success r \<or> error r \<noteq> None \<or>
         existingUser r =
           Some \<lparr>auth = True, authUid = None, users = False, sales = False\<rparr>)"
  proof (cases x)
    case (Inl err)
    with t show ?thesis by (simp add: approveAuthRequest_def)
  next
    case (Inr r)
    with t approveAuthRequest_try_Inr [of js env requestId reviewerId userData w r w1]
    show ?thesis by (simp add: approveAuthRequest_def)
  qed
next
  obtain x w1 where t: "validation_try js venv requestId reviewerId userData w = (x, w1)"
    by (cases "validation_try js venv requestId reviewerId userData w")
  show "\<exists>r. fst (validation_approveAuthRequest js venv requestId reviewerId userData w) =
            Resolved r \<and> (success r \<or> error r \<noteq> None)"
  proof (cases x)
    case (Inl err)
    with t show ?thesis by (simp add: validation_approveAuthRequest_def)
  next
    case (Inr r)
    with t validation_try_Inr [of js venv requestId reviewerId userData w r w1]
    show ?thesis by (simp add: validation_approveAuthRequest_def)
  qed
qed (simp_all add: approveAuthRequest_def validation_approveAuthRequest_def)

theorem approveAuthRequest_always_resolves_witness:
  "approveAuthRequest asciiText (approvalRun\<lparr>networkOnline := False\<rparr>) ''r1'' ''admin1'' teamMember
     (storeWith pendingRequest) =
     (Resolved (failure ''No network connection available''), storeWith pendingRequest)
   \<and> validation_approveAuthRequest asciiText
       ((validationRun nothingExists (Inr ''uid1''))\<lparr>hasPermission := False\<rparr>)
       ''r1'' ''admin1'' teamMember (storeWith pendingRequest) =
     (Resolved (failure ''You do not have permission to approve requests''),
      storeWith pendingRequest)"
  using approveAuthRequest_always_resolves
    [where js = asciiText and env = "approvalRun\<lparr>networkOnline := False\<rparr>"
       and venv = "(validationRun nothingExists (Inr ''uid1''))\<lparr>hasPermission := False\<rparr>"
       and requestId = "''r1''" and reviewerId = "''admin1''"
       and userData = teamMember and w = "storeWith pendingRequest"]
  by (simp add: approval_defs validation_defs approval_catch_def validation_catch_def
      approvalRun_def validationRun_def)

section \<open>Properties of the existence checks\<close>

lemma checkExistingUser_accountOnly:
  assumes "signInMethods c = Inr methods" "methods \<noteq> []" "accountRecords c = Inr found"
    "profileRecords c = Inr rp" "\<not> recordsUsers rp" "\<not> recordsSales rp"
  shows "checkExistingUser c =
     \<lparr>userExists = True,
      details = \<lparr>auth = True,
                 authUid = (if truthy (recordsUid found) then recordsUid found else None),
                 users = False, sales = False\<rparr>\<rparr>"
  using assms
  by (simp add: checkExistingUser_def checkAuthAccount_def checkAuthAccount_try_def)

lemma checkExistingUser_both:
  assumes "profileRecords c = Inr rp" "recordsUsers rp" "recordsSales rp"
  shows "userExists (checkExistingUser c) \<and> users (details (checkExistingUser c)) \<and>
     sales (details (checkExistingUser c))"
  using assms by (simp add: checkExistingUser_def split: prod.splits)

text \<open>
  The claim C2 as stated fails in its second half. The identity provider has an account
  for the email, neither profile collection has a record, and the records yield no uid;
  \<^verbatim>\<open>forceContinue\<close> is set. The workflow of validation.ts skips both gates, tries
  to create the account, is told that the email is in use, finds no uid to reuse, and
  resolves to a failure without writing anything.
\<close>

theorem force_continue_without_uid_counterexample:
  "forceContinue (teamMember\<lparr>forceContinue := True\<rparr>)
   \<and> signInMethods (finalCheck (validationRun (accountOnly None) (Inl emailInUse))) =
       Inr [''password'']
   \<and> validation_approveAuthRequest asciiText (validationRun (accountOnly None) (Inl emailInUse)) ''r1''
       ''admin1'' (teamMember\<lparr>forceContinue := True\<rparr>) (storeWith pendingRequest) =
     (Resolved (failure ''Failed to create or find user account''), storeWith pendingRequest)"
  by (simp add: validation_defs validation_catch_def validationRun_def accountOnly_def
      emailInUse_def teamMember_def pendingRequest_def)

lemma validation_batch_defined:
  assumes "staffCode userData \<noteq> None" "storeIds userData \<noteq> None"
    "primaryStoreId userData \<noteq> None"
  shows "validation_batch js env requestId reviewerId e newUid userData =
     Inr ([SetDoc ''users'' newUid (validation_userDoc js env e userData)] @
          (if role userData = ''team_member''
           then [SetDoc ''salespeople'' newUid (validation_salespersonDoc js e userData)]
           else []) @
          [UpdateDoc ''authRequests'' requestId (requestUpdate reviewerId)])"
  using assms undefinedField_validation_userDoc [of js env e userData]
    undefinedField_validation_salespersonDoc [of js e userData]
  by (simp add: validation_batch_def batchSet_def)

lemma validation_batch_undefined:
  assumes "staffCode userData = None \<or> storeIds userData = None \<or>
    primaryStoreId userData = None"
  shows "\<exists>err. validation_batch js env requestId reviewerId e newUid userData = Inl err"
proof -
  from assms undefinedField_validation_userDoc [of js env e userData]
  obtain field where "undefinedField (validation_userDoc js env e userData) = Some field"
    by (cases "undefinedField (validation_userDoc js env e userData)") auto
  then show ?thesis by (simp add: validation_batch_def batchSet_def)
qed

lemma validationRun_continue_eval:
  "validation_approveAuthRequest asciiText
     (validationRun (accountOnly (Some ''uid7'')) (Inl emailInUse)) ''r1'' ''admin1''
     (teamMember\<lparr>forceContinue := True\<rparr>) (storeWith pendingRequest) =
     (Resolved \<lparr>success = True, userId = Some ''uid7'', error = None, existingUser = None,
        resultUid = None\<rparr>,
      \<lparr>docs = [(''authRequests'', ''r1'') \<mapsto>
                 [(''email'', Str ''new@x.com''), (''password'', Str ''secret''),
                  (''status'', Str ''approved''), (''reviewedBy'', Str ''admin1''),
                  (''reviewedAt'', serverTimestamp)],
               (''users'', ''uid7'') \<mapsto>
                 [(''email'', Str ''new@x.com''), (''name'', Str ''New User''),
                  (''role'', Str ''team_member''), (''staffCode'', Str ''S1''),
                  (''storeIds'', StrList [''store1'']), (''primaryStoreId'', Str ''store1''),
                  (''approved'', Bool True), (''createdAt'', IsoString 0),
                  (''lastLoginAt'', Null)],
               (''salespeople'', ''uid7'') \<mapsto>
                 [(''email'', Str ''new@x.com''), (''name'', Str ''New User''),
                  (''role'', Str ''team_member''), (''staffCode'', Str ''S1''),
                  (''storeIds'', StrList [''store1'']), (''primaryStoreId'', Str ''store1''),
                  (''approved'', Bool True), (''createdAt'', serverTimestamp)]],
       accounts = [], commits = 1\<rparr>)"
  by (simp add: validation_defs validation_catch_def validationRun_def accountOnly_def
      emailInUse_def teamMember_def storeWith_def pendingRequest_def numeral_eq_Suc
      fun_upd_twist)

lemma validationRun_missing_field_eval:
  "validation_approveAuthRequest asciiText
     (validationRun (accountOnly (Some ''uid7'')) (Inl emailInUse)) ''r1'' ''admin1''
     (teamMember\<lparr>forceContinue := True, staffCode := None\<rparr>) (storeWith pendingRequest) =
     (Resolved
        (failure
           (''Function WriteBatch.set() called with invalid data. Unsupported field value: '' @
            ''undefined (found in field staffCode in document users/uid7)'')),
      \<lparr>docs = [(''authRequests'', ''r1'') \<mapsto> pendingRequest], accounts = [],
       commits = 0\<rparr>)"
  by (simp add: validation_defs validation_catch_def validationRun_def accountOnly_def
      emailInUse_def teamMember_def storeWith_def pendingRequest_def numeral_eq_Suc)

text \<open>
  C2, amended. (a) In validation.ts, when \<^verbatim>\<open>forceContinue\<close> is unset, the caller
  passes the checks before the gate, and the first existence check finds sign-in methods
  for the email and no record in either profile collection, the call resolves to an
  unsuccessful result that carries the existing-user details, and nothing is written.
  (b) When \<^verbatim>\<open>forceContinue\<close> is set, the request is pending when loaded, the
  final existence check finds the account, no profile and a uid, and the submitted data
  has a staff code, store ids and a primary store id, the workflow creates no account and
  commits one batch: the user profile under that uid, for the role \<open>team_member\<close>
  the salesperson profile under that uid (otherwise that document is left as it was), and
  the update of the request; it succeeds with that uid.
  (c) When in the same situation no uid is found and the provider reports the email as in
  use, the call fails with "Failed to create or find user account" and writes nothing.
  (d) In approval.ts, which has no \<^verbatim>\<open>forceContinue\<close>, when the checks pass, the
  provider reports the email as in use, no user profile has the email and the provider
  lists a sign-in method, the call resolves to an unsuccessful result that carries the
  existing-user details, and nothing is written.
  (e) In the situation of (b), when the submitted data lacks the staff code, the store ids
  or the primary store id, \<^verbatim>\<open>batch.set\<close> throws on the user profile: the call
  resolves to an unsuccessful result with an error message, and nothing is written.
\<close>

theorem existing_account_without_profiles:
  "(\<not> forceContinue userDataA \<and> hasPermission venvA \<and> truthy (normalizedEmail js userDataA) \<and>
    authCurrentUser venvA \<noteq> None \<and>
    signInMethods (firstCheck venvA) = Inr methodsA \<and> methodsA \<noteq> [] \<and>
    accountRecords (firstCheck venvA) = Inr foundA \<and>
    profileRecords (firstCheck venvA) = Inr profilesA \<and>
    \<not> recordsUsers profilesA \<and> \<not> recordsSales profilesA \<longrightarrow>
      validation_approveAuthRequest js venvA requestId reviewerId userDataA w =
        (Resolved
           \<lparr>success = False, userId = None,
            error = Some ''Authentication account exists. Click Continue to create required profiles.'',
            existingUser =
              Some \<lparr>auth = True,
                    authUid = (if truthy (recordsUid foundA) then recordsUid foundA else None),
                    users = False, sales = False\<rparr>,
            resultUid = None\<rparr>, w))
   \<and> (forceContinue userDataB \<and> hasPermission venvB \<and> normalizedEmail js userDataB = Some emailB \<and>
      emailB \<noteq> [] \<and> authCurrentUser venvB \<noteq> None \<and>
      requestDoc venvB = Inr (Some requestDataB) \<and> \<not> alreadyProcessed requestDataB \<and>
      signInMethods (finalCheck venvB) = Inr methodsB \<and> methodsB \<noteq> [] \<and>
      accountRecords (finalCheck venvB) = Inr foundB \<and>
      recordsUid foundB = Some existingUid \<and> existingUid \<noteq> [] \<and>
      profileRecords (finalCheck venvB) = Inr profilesB \<and>
      \<not> recordsUsers profilesB \<and> \<not> recordsSales profilesB \<and>
      staffCode userDataB \<noteq> None \<and> storeIds userDataB \<noteq> None \<and>
      primaryStoreId userDataB \<noteq> None \<and>
      batchFault venvB = None \<and> docs w (''authRequests'', requestId) = Some stored \<longrightarrow>
        fst (validation_approveAuthRequest js venvB requestId reviewerId userDataB w) =
          Resolved \<lparr>success = True, userId = Some existingUid, error = None,
                    existingUser = None, resultUid = None\<rparr> \<and>
        accounts (snd (validation_approveAuthRequest js venvB requestId reviewerId userDataB w)) =
          accounts w \<and>
        commits (snd (validation_approveAuthRequest js venvB requestId reviewerId userDataB w)) =
          Suc (commits w) \<and>
        docs (snd (validation_approveAuthRequest js venvB requestId reviewerId userDataB w))
          (''users'', existingUid) = Some (validation_userDoc js venvB emailB userDataB) \<and>
        docs (snd (validation_approveAuthRequest js venvB requestId reviewerId userDataB w))
          (''salespeople'', existingUid) =
          (if role userDataB = ''team_member''
           then Some (validation_salespersonDoc js emailB userDataB)
           else docs w (''salespeople'', existingUid)) \<and>
        docs (snd (validation_approveAuthRequest js venvB requestId reviewerId userDataB w))
          (''authRequests'', requestId) = Some (mergeFields (requestUpdate reviewerId) stored))
   \<and> (forceContinue userDataC \<and> hasPermission venvC \<and> truthy (normalizedEmail js userDataC) \<and>
      authCurrentUser venvC \<noteq> None \<and>
      requestDoc venvC = Inr (Some requestDataC) \<and> \<not> alreadyProcessed requestDataC \<and>
      signInMethods (finalCheck venvC) = Inr methodsC \<and> methodsC \<noteq> [] \<and>
      accountRecords (finalCheck venvC) = Inr foundC \<and> \<not> truthy (recordsUid foundC) \<and>
      profileRecords (finalCheck venvC) = Inr profilesC \<and>
      \<not> recordsUsers profilesC \<and> \<not> recordsSales profilesC \<and>
      createUser venvC = Inl errC \<and> errorCode errC = Some ''auth/email-already-in-use'' \<and>
      lookupRecords venvC = Inr lookedC \<and> \<not> truthy (recordsUid lookedC) \<longrightarrow>
        validation_approveAuthRequest js venvC requestId reviewerId userDataC w =
          (Resolved (failure ''Failed to create or find user account''), w))
   \<and> (approval_checks js env userDataD = Inr (emailD, requestDataD) \<and>
      createUserWithEmailAndPassword env = Inl errD \<and>
      errorCode errD = Some ''auth/email-already-in-use'' \<and>
      getUserDocsByEmail env = Inr [] \<and>
      fetchSignInMethodsForEmail env = Inr methodsD \<and> methodsD \<noteq> [] \<longrightarrow>
        approveAuthRequest js env requestId reviewerId userDataD w =
          (Resolved
             \<lparr>success = False, userId = None, error = None,
              existingUser = Some \<lparr>auth = True, authUid = None, users = False, sales = False\<rparr>,
              resultUid = None\<rparr>, w))
   \<and> (forceContinue userDataE \<and> hasPermission venvE \<and> truthy (normalizedEmail js userDataE) \<and>
      authCurrentUser venvE \<noteq> None \<and>
      requestDoc venvE = Inr (Some requestDataE) \<and> \<not> alreadyProcessed requestDataE \<and>
      signInMethods (finalCheck venvE) = Inr methodsE \<and> methodsE \<noteq> [] \<and>
      accountRecords (finalCheck venvE) = Inr foundE \<and> truthy (recordsUid foundE) \<and>
      profileRecords (finalCheck venvE) = Inr profilesE \<and>
      \<not> recordsUsers profilesE \<and> \<not> recordsSales profilesE \<and>
      (staffCode userDataE = None \<or> storeIds userDataE = None \<or>
       primaryStoreId userDataE = None) \<longrightarrow>
        snd (validation_approveAuthRequest js venvE requestId reviewerId userDataE w) = w \<and>
        (\<exists>r. fst (validation_approveAuthRequest js venvE requestId reviewerId userDataE w) =
               Resolved r \<and> \<not> success r \<and> error r \<noteq> None))"
proof (intro conjI impI; elim conjE)
  assume a: "\<not> forceContinue userDataA" "hasPermission venvA"
    "truthy (normalizedEmail js userDataA)" "authCurrentUser venvA \<noteq> None"
    "signInMethods (firstCheck venvA) = Inr methodsA" "methodsA \<noteq> []"
    "accountRecords (firstCheck venvA) = Inr foundA"
    "profileRecords (firstCheck venvA) = Inr profilesA"
    "\<not> recordsUsers profilesA" "\<not> recordsSales profilesA"
  note c = checkExistingUser_accountOnly [OF a(5-10)]
  have g: "existingUserGate venvA userDataA =
      Some \<lparr>success = False, userId = None,
            error = Some ''Authentication account exists. Click Continue to create required profiles.'',
            existingUser =
              Some \<lparr>auth = True,
                    authUid = (if truthy (recordsUid foundA) then recordsUid foundA else None),
                    users = False, sales = False\<rparr>,
            resultUid = None\<rparr>"
    using a(1) by (simp add: existingUserGate_def c getExistingUserError_def)
  from a(2-4) show "validation_approveAuthRequest js venvA requestId reviewerId userDataA w =
        (Resolved
           \<lparr>success = False, userId = None,
            error = Some ''Authentication account exists. Click Continue to create required profiles.'',
            existingUser =
              Some \<lparr>auth = True,
                    authUid = (if truthy (recordsUid foundA) then recordsUid foundA else None),
                    users = False, sales = False\<rparr>,
            resultUid = None\<rparr>, w)"
    by (auto simp: validation_approveAuthRequest_def validation_try_def g truthy_Some)
next
  assume a: "forceContinue userDataB" "hasPermission venvB" "normalizedEmail js userDataB = Some emailB"
    "emailB \<noteq> []" "authCurrentUser venvB \<noteq> None"
    "requestDoc venvB = Inr (Some requestDataB)" "\<not> alreadyProcessed requestDataB"
    "signInMethods (finalCheck venvB) = Inr methodsB" "methodsB \<noteq> []"
    "accountRecords (finalCheck venvB) = Inr foundB"
    "recordsUid foundB = Some existingUid" "existingUid \<noteq> []"
    "profileRecords (finalCheck venvB) = Inr profilesB"
    "\<not> recordsUsers profilesB" "\<not> recordsSales profilesB"
    "staffCode userDataB \<noteq> None" "storeIds userDataB \<noteq> None"
    "primaryStoreId userDataB \<noteq> None"
    "batchFault venvB = None" "docs w (''authRequests'', requestId) = Some stored"
  note vb = validation_batch_defined [OF a(16,17,18)]
  have c: "checkExistingUser (finalCheck venvB) =
     \<lparr>userExists = True,
      details = \<lparr>auth = True, authUid = Some existingUid, users = False, sales = False\<rparr>\<rparr>"
    using checkExistingUser_accountOnly [OF a(8,9,10,13,14,15)] a(11,12) by simp
  have g1: "existingUserGate venvB userDataB = None"
    using a(1) by (simp add: existingUserGate_def)
  have g2: "finalGate venvB userDataB = None"
    using a(1) by (simp add: finalGate_def c)
  have cu: "validation_createUser venvB emailB w = (Continue existingUid, w)"
    using a(12) by (simp add: validation_createUser_def createUserAccount_def c)
  obtain m where m: "applyWrites
       ([SetDoc ''users'' existingUid (validation_userDoc js venvB emailB userDataB)] @
        (if role userDataB = ''team_member''
         then [SetDoc ''salespeople'' existingUid (validation_salespersonDoc js emailB userDataB)]
         else []) @
        [UpdateDoc ''authRequests'' requestId (requestUpdate reviewerId)]) (docs w) = Some m"
    using applyWrites_profiles_defined [of "docs w" requestId stored] a(20) by blast
  note prof = applyWrites_profiles [OF m]
  have run: "validation_approveAuthRequest js venvB requestId reviewerId userDataB w =
      (Resolved \<lparr>success = True, userId = Some existingUid, error = None,
                 existingUser = None, resultUid = None\<rparr>,
       w\<lparr>docs := m, commits := Suc (commits w)\<rparr>)"
    using a(2-7,19) m
    by (auto simp: validation_approveAuthRequest_def validation_try_def g1 g2 cu commit_def vb)
  show "fst (validation_approveAuthRequest js venvB requestId reviewerId userDataB w) =
          Resolved \<lparr>success = True, userId = Some existingUid, error = None,
                    existingUser = None, resultUid = None\<rparr>"
    and "accounts (snd (validation_approveAuthRequest js venvB requestId reviewerId userDataB w)) =
          accounts w"
    and "commits (snd (validation_approveAuthRequest js venvB requestId reviewerId userDataB w)) =
          Suc (commits w)"
    by (simp_all add: run)
  show "docs (snd (validation_approveAuthRequest js venvB requestId reviewerId userDataB w))
          (''users'', existingUid) = Some (validation_userDoc js venvB emailB userDataB)"
    and "docs (snd (validation_approveAuthRequest js venvB requestId reviewerId userDataB w))
          (''salespeople'', existingUid) =
          (if role userDataB = ''team_member''
           then Some (validation_salespersonDoc js emailB userDataB)
           else docs w (''salespeople'', existingUid))"
    and "docs (snd (validation_approveAuthRequest js venvB requestId reviewerId userDataB w))
          (''authRequests'', requestId) = Some (mergeFields (requestUpdate reviewerId) stored)"
    using prof a(20) by (simp_all add: run)
next
  assume a: "forceContinue userDataC" "hasPermission venvC"
    "truthy (normalizedEmail js userDataC)" "authCurrentUser venvC \<noteq> None"
    "requestDoc venvC = Inr (Some requestDataC)" "\<not> alreadyProcessed requestDataC"
    "signInMethods (finalCheck venvC) = Inr methodsC" "methodsC \<noteq> []"
    "accountRecords (finalCheck venvC) = Inr foundC" "\<not> truthy (recordsUid foundC)"
    "profileRecords (finalCheck venvC) = Inr profilesC"
    "\<not> recordsUsers profilesC" "\<not> recordsSales profilesC"
    "createUser venvC = Inl errC" "errorCode errC = Some ''auth/email-already-in-use''"
    "lookupRecords venvC = Inr lookedC" "\<not> truthy (recordsUid lookedC)"
  have c: "checkExistingUser (finalCheck venvC) =
     \<lparr>userExists = True,
      details = \<lparr>auth = True, authUid = None, users = False, sales = False\<rparr>\<rparr>"
    using checkExistingUser_accountOnly [OF a(7,8,9,11,12,13)] a(10) by simp
  have g1: "existingUserGate venvC userDataC = None"
    using a(1) by (simp add: existingUserGate_def)
  have g2: "finalGate venvC userDataC = None"
    using a(1) by (simp add: finalGate_def c)
  have cu: "validation_createUser venvC e w =
      (Throw (Error ''Failed to create or find user account''), w)" for e
    using a(14-17)
    by (simp add: validation_createUser_def createUserAccount_def c creationHandler_def
        split: sum.splits)
  from a(2-6) show "validation_approveAuthRequest js venvC requestId reviewerId userDataC w =
          (Resolved (failure ''Failed to create or find user account''), w)"
    by (auto simp: validation_approveAuthRequest_def validation_try_def g1 g2 cu truthy_Some
        validation_catch_def)
next
  assume a: "approval_checks js env userDataD = Inr (emailD, requestDataD)"
    "createUserWithEmailAndPassword env = Inl errD"
    "errorCode errD = Some ''auth/email-already-in-use''"
    "getUserDocsByEmail env = Inr []"
    "fetchSignInMethodsForEmail env = Inr methodsD" "methodsD \<noteq> []"
  then show "approveAuthRequest js env requestId reviewerId userDataD w =
          (Resolved
             \<lparr>success = False, userId = None, error = None,
              existingUser = Some \<lparr>auth = True, authUid = None, users = False, sales = False\<rparr>,
              resultUid = None\<rparr>, w)"
    by (simp add: approveAuthRequest_def approveAuthRequest_try_def approval_createUser_def)
next
  assume a: "forceContinue userDataE" "hasPermission venvE"
    "truthy (normalizedEmail js userDataE)" "authCurrentUser venvE \<noteq> None"
    "requestDoc venvE = Inr (Some requestDataE)" "\<not> alreadyProcessed requestDataE"
    "signInMethods (finalCheck venvE) = Inr methodsE" "methodsE \<noteq> []"
    "accountRecords (finalCheck venvE) = Inr foundE" "truthy (recordsUid foundE)"
    "profileRecords (finalCheck venvE) = Inr profilesE"
    "\<not> recordsUsers profilesE" "\<not> recordsSales profilesE"
    "staffCode userDataE = None \<or> storeIds userDataE = None \<or>
       primaryStoreId userDataE = None"
  from a(10) obtain u where u: "recordsUid foundE = Some u" "u \<noteq> []"
    by (auto simp: truthy_Some)
  have c: "checkExistingUser (finalCheck venvE) =
     \<lparr>userExists = True,
      details = \<lparr>auth = True, authUid = Some u, users = False, sales = False\<rparr>\<rparr>"
    using checkExistingUser_accountOnly [OF a(7,8,9,11,12,13)] u by simp
  have g1: "existingUserGate venvE userDataE = None"
    using a(1) by (simp add: existingUserGate_def)
  have g2: "finalGate venvE userDataE = None"
    using a(1) by (simp add: finalGate_def c)
  have cu: "validation_createUser venvE e w = (Continue u, w)" for e
    using u(2) by (simp add: validation_createUser_def createUserAccount_def c)
  from a(3) obtain e where e: "normalizedEmail js userDataE = Some e" "e \<noteq> []"
    by (auto simp: truthy_Some)
  from validation_batch_undefined [OF a(14)] obtain err
    where err: "validation_batch js venvE requestId reviewerId e u userDataE = Inl err"
    by blast
  have run: "validation_approveAuthRequest js venvE requestId reviewerId userDataE w =
      (Resolved (validation_catch err), w)"
    using a(2,4-6) e
    by (auto simp: validation_approveAuthRequest_def validation_try_def g1 g2 cu err)
  show "snd (validation_approveAuthRequest js venvE requestId reviewerId userDataE w) = w"
    and "\<exists>r. fst (validation_approveAuthRequest js venvE requestId reviewerId userDataE w) =
               Resolved r \<and> \<not> success r \<and> error r \<noteq> None"
    by (simp_all add: run)
qed

theorem existing_account_without_profiles_witness:
  "validation_approveAuthRequest asciiText (validationRun (accountOnly None) (Inl emailInUse)) ''r1''
     ''admin1'' teamMember (storeWith pendingRequest) =
     (Resolved
        \<lparr>success = False, userId = None,
         error = Some ''Authentication account exists. Click Continue to create required profiles.'',
         existingUser = Some \<lparr>auth = True, authUid = None, users = False, sales = False\<rparr>,
         resultUid = None\<rparr>, storeWith pendingRequest)
   \<and> validation_approveAuthRequest asciiText
       (validationRun (accountOnly (Some ''uid7'')) (Inl emailInUse)) ''r1'' ''admin1''
       (teamMember\<lparr>forceContinue := True\<rparr>) (storeWith pendingRequest) =
     (Resolved \<lparr>success = True, userId = Some ''uid7'', error = None, existingUser = None,
        resultUid = None\<rparr>,
      \<lparr>docs = [(''authRequests'', ''r1'') \<mapsto>
                 [(''email'', Str ''new@x.com''), (''password'', Str ''secret''),
                  (''status'', Str ''approved''), (''reviewedBy'', Str ''admin1''),
                  (''reviewedAt'', serverTimestamp)],
               (''users'', ''uid7'') \<mapsto>
                 [(''email'', Str ''new@x.com''), (''name'', Str ''New User''),
                  (''role'', Str ''team_member''), (''staffCode'', Str ''S1''),
                  (''storeIds'', StrList [''store1'']), (''primaryStoreId'', Str ''store1''),
                  (''approved'', Bool True), (''createdAt'', IsoString 0),
                  (''lastLoginAt'', Null)],
               (''salespeople'', ''uid7'') \<mapsto>
                 [(''email'', Str ''new@x.com''), (''name'', Str ''New User''),
                  (''role'', Str ''team_member''), (''staffCode'', Str ''S1''),
                  (''storeIds'', StrList [''store1'']), (''primaryStoreId'', Str ''store1''),
                  (''approved'', Bool True), (''createdAt'', serverTimestamp)]],
       accounts = [], commits = 1\<rparr>)
   \<and> validation_approveAuthRequest asciiText
       (validationRun (accountOnly (Some ''uid7'')) (Inl emailInUse)) ''r1'' ''admin1''
       (teamMember\<lparr>forceContinue := True, staffCode := None\<rparr>) (storeWith pendingRequest) =
     (Resolved
        (failure
           (''Function WriteBatch.set() called with invalid data. Unsupported field value: '' @
            ''undefined (found in field staffCode in document users/uid7)'')),
      \<lparr>docs = [(''authRequests'', ''r1'') \<mapsto> pendingRequest], accounts = [],
       commits = 0\<rparr>)
   \<and> validation_approveAuthRequest asciiText (validationRun (accountOnly None) (Inl emailInUse)) ''r1''
       ''admin1'' (teamMember\<lparr>forceContinue := True\<rparr>) (storeWith pendingRequest) =
     (Resolved (failure ''Failed to create or find user account''), storeWith pendingRequest)
   \<and> approveAuthRequest asciiText
       (approvalRun\<lparr>createUserWithEmailAndPassword := Inl emailInUse,
                     fetchSignInMethodsForEmail := Inr [''password'']\<rparr>)
       ''r1'' ''admin1'' teamMember (storeWith pendingRequest) =
     (Resolved
        \<lparr>success = False, userId = None, error = None,
         existingUser = Some \<lparr>auth = True, authUid = None, users = False, sales = False\<rparr>,
         resultUid = None\<rparr>, storeWith pendingRequest)"
  using existing_account_without_profiles
    [where js = asciiText and venvA = "validationRun (accountOnly None) (Inl emailInUse)"
       and userDataA = teamMember and methodsA = "[''password'']"
       and foundA = "\<lparr>recordsUid = None, recordsUsers = False, recordsSales = False\<rparr>"
       and profilesA = "\<lparr>recordsUid = None, recordsUsers = False, recordsSales = False\<rparr>"
       and requestId = "''r1''" and reviewerId = "''admin1''" and w = "storeWith pendingRequest"
       and venvB = "validationRun (accountOnly (Some ''uid7'')) (Inl emailInUse)"
       and userDataB = "teamMember\<lparr>forceContinue := True\<rparr>" and emailB = "''new@x.com''"
       and requestDataB = pendingRequest and methodsB = "[''password'']"
       and foundB = "\<lparr>recordsUid = Some ''uid7'', recordsUsers = False, recordsSales = False\<rparr>"
       and existingUid = "''uid7''"
       and profilesB = "\<lparr>recordsUid = Some ''uid7'', recordsUsers = False, recordsSales = False\<rparr>"
       and stored = pendingRequest
       and venvC = "validationRun (accountOnly None) (Inl emailInUse)"
       and userDataC = "teamMember\<lparr>forceContinue := True\<rparr>"
       and requestDataC = pendingRequest and methodsC = "[''password'']"
       and foundC = "\<lparr>recordsUid = None, recordsUsers = False, recordsSales = False\<rparr>"
       and profilesC = "\<lparr>recordsUid = None, recordsUsers = False, recordsSales = False\<rparr>"
       and errC = emailInUse
       and lookedC = "\<lparr>recordsUid = None, recordsUsers = False, recordsSales = False\<rparr>"
       and env = "approvalRun\<lparr>createUserWithEmailAndPassword := Inl emailInUse,
                     fetchSignInMethodsForEmail := Inr [''password'']\<rparr>"
       and userDataD = teamMember and emailD = "''new@x.com''" and requestDataD = pendingRequest
       and errD = emailInUse and methodsD = "[''password'']"
       and venvE = "validationRun (accountOnly (Some ''uid7'')) (Inl emailInUse)"
       and userDataE = "teamMember\<lparr>forceContinue := True, staffCode := None\<rparr>"
       and requestDataE = pendingRequest and methodsE = "[''password'']"
       and foundE = "\<lparr>recordsUid = Some ''uid7'', recordsUsers = False, recordsSales = False\<rparr>"
       and profilesE = "\<lparr>recordsUid = Some ''uid7'', recordsUsers = False, recordsSales = False\<rparr>"]
  by (simp (no_asm) add: validationRun_continue_eval validationRun_missing_field_eval)
     (simp add: approval_defs validation_defs validation_catch_def approvalRun_def
      validationRun_def accountOnly_def emailInUse_def teamMember_def storeWith_def
      pendingRequest_def numeral_eq_Suc)

text \<open>
  The claim C3 as stated fails. Both profile collections hold a record for the email. With
  \<^verbatim>\<open>forceContinue\<close> set, the workflow of validation.ts skips the gate, reuses the
  uid of the records, replaces the user profile and succeeds. The workflow of approval.ts
  looks at the profiles only after the provider has refused to create the account; when
  the provider creates it, the workflow writes the new profiles and succeeds.
\<close>

theorem fully_provisioned_overwritten_counterexample:
  "docs provisionedStore (''users'', ''uid9'') = Some oldProfile
   \<and> docs provisionedStore (''salespeople'', ''uid9'') = Some oldProfile
   \<and> fst (validation_approveAuthRequest asciiText (validationRun fullyProvisioned (Inl emailInUse)) ''r1''
         ''admin1'' (teamMember\<lparr>forceContinue := True\<rparr>) provisionedStore) =
       Resolved \<lparr>success = True, userId = Some ''uid9'', error = None, existingUser = None,
                 resultUid = None\<rparr>
   \<and> docs (snd (validation_approveAuthRequest asciiText (validationRun fullyProvisioned (Inl emailInUse))
         ''r1'' ''admin1'' (teamMember\<lparr>forceContinue := True\<rparr>) provisionedStore))
         (''users'', ''uid9'') =
       Some (validation_userDoc asciiText (validationRun fullyProvisioned (Inl emailInUse)) ''new@x.com''
               (teamMember\<lparr>forceContinue := True\<rparr>))
   \<and> fst (approveAuthRequest asciiText (approvalRun\<lparr>getUserDocsByEmail := Inr [oldProfile]\<rparr>) ''r1''
         ''admin1'' teamMember provisionedStore) =
       Resolved \<lparr>success = True, userId = Some ''uid1'', error = None, existingUser = None,
                 resultUid = None\<rparr>
   \<and> commits (snd (approveAuthRequest asciiText (approvalRun\<lparr>getUserDocsByEmail := Inr [oldProfile]\<rparr>)
         ''r1'' ''admin1'' teamMember provisionedStore)) = 1"
  by (simp add: approval_defs validation_defs approvalRun_def validationRun_def
      fullyProvisioned_def emailInUse_def teamMember_def provisionedStore_def
      pendingRequest_def numeral_eq_Suc)

text \<open>
  C3, amended. In validation.ts, when \<^verbatim>\<open>forceContinue\<close> is unset, the caller passes
  the checks before the gate, and the first existence check finds a record in both profile
  collections, the call resolves to the conflict result "This account already exists"
  with the existence details, and nothing is written. In approval.ts, when the checks
  pass, the provider reports the email as in use and the query on the user profiles finds a
  record, the call resolves to the conflict result "This email already has an active
  account", and nothing is written.
\<close>

theorem fully_provisioned_conflict:
  "(\<not> forceContinue userDataA \<and> hasPermission venv \<and> truthy (normalizedEmail js userDataA) \<and>
    authCurrentUser venv \<noteq> None \<and>
    profileRecords (firstCheck venv) = Inr profiles \<and>
    recordsUsers profiles \<and> recordsSales profiles \<longrightarrow>
      validation_approveAuthRequest js venv requestId reviewerId userDataA w =
        (Resolved
           \<lparr>success = False, userId = None,
            error = Some ''This account already exists. Please check User Management for account status.'',
            existingUser = Some (details (checkExistingUser (firstCheck venv))),
            resultUid = None\<rparr>, w) \<and>
      users (details (checkExistingUser (firstCheck venv))) \<and>
      sales (details (checkExistingUser (firstCheck venv))))
   \<and> (approval_checks js env userDataB = Inr (emailB, requestDataB) \<and>
      createUserWithEmailAndPassword env = Inl err \<and>
      errorCode err = Some ''auth/email-already-in-use'' \<and>
      getUserDocsByEmail env = Inr userDocs \<and> userDocs \<noteq> [] \<longrightarrow>
        approveAuthRequest js env requestId reviewerId userDataB w =
          (Resolved (failure ''This email already has an active account''), w))"
proof (intro conjI impI; elim conjE)
  assume a: "\<not> forceContinue userDataA" "hasPermission venv"
    "truthy (normalizedEmail js userDataA)" "authCurrentUser venv \<noteq> None"
    "profileRecords (firstCheck venv) = Inr profiles"
    "recordsUsers profiles" "recordsSales profiles"
  note c = checkExistingUser_both [OF a(5-7)]
  then show "users (details (checkExistingUser (firstCheck venv)))"
    and "sales (details (checkExistingUser (firstCheck venv)))"
    by simp_all
  have g: "existingUserGate venv userDataA =
      Some \<lparr>success = False, userId = None,
            error = Some ''This account already exists. Please check User Management for account status.'',
            existingUser = Some (details (checkExistingUser (firstCheck venv))),
            resultUid = None\<rparr>"
    using a(1) c by (simp add: existingUserGate_def getExistingUserError_def)
  from a(2-4) show "validation_approveAuthRequest js venv requestId reviewerId userDataA w =
        (Resolved
           \<lparr>success = False, userId = None,
            error = Some ''This account already exists. Please check User Management for account status.'',
            existingUser = Some (details (checkExistingUser (firstCheck venv))),
            resultUid = None\<rparr>, w)"
    by (auto simp: validation_approveAuthRequest_def validation_try_def g truthy_Some)
next
  assume "approval_checks js env userDataB = Inr (emailB, requestDataB)"
    "createUserWithEmailAndPassword env = Inl err"
    "errorCode err = Some ''auth/email-already-in-use''"
    "getUserDocsByEmail env = Inr userDocs" "userDocs \<noteq> []"
  then show "approveAuthRequest js env requestId reviewerId userDataB w =
          (Resolved (failure ''This email already has an active account''), w)"
    by (simp add: approveAuthRequest_def approveAuthRequest_try_def approval_createUser_def)
qed

theorem fully_provisioned_conflict_witness:
  "validation_approveAuthRequest asciiText (validationRun fullyProvisioned (Inl emailInUse)) ''r1''
     ''admin1'' teamMember provisionedStore =
     (Resolved
        \<lparr>success = False, userId = None,
         error = Some ''This account already exists. Please check User Management for account status.'',
         existingUser =
           Some \<lparr>auth = True, authUid = Some ''uid9'', users = True, sales = True\<rparr>,
         resultUid = None\<rparr>, provisionedStore)
   \<and> approveAuthRequest asciiText
       (approvalRun\<lparr>createUserWithEmailAndPassword := Inl emailInUse,
                     getUserDocsByEmail := Inr [oldProfile]\<rparr>)
       ''r1'' ''admin1'' teamMember provisionedStore =
     (Resolved (failure ''This email already has an active account''), provisionedStore)"
  using fully_provisioned_conflict
    [where js = asciiText and venv = "validationRun fullyProvisioned (Inl emailInUse)"
       and userDataA = teamMember
       and profiles = "\<lparr>recordsUid = Some ''uid9'', recordsUsers = True, recordsSales = True\<rparr>"
       and requestId = "''r1''" and reviewerId = "''admin1''" and w = provisionedStore
       and env = "approvalRun\<lparr>createUserWithEmailAndPassword := Inl emailInUse,
                     getUserDocsByEmail := Inr [oldProfile]\<rparr>"
       and userDataB = teamMember and emailB = "''new@x.com''" and requestDataB = pendingRequest
       and err = emailInUse and userDocs = "[oldProfile]"]
  by (simp add: approval_defs validation_defs approvalRun_def validationRun_def
      fullyProvisioned_def emailInUse_def teamMember_def pendingRequest_def numeral_eq_Suc)


end
